theory Spec2Isabelle
  imports Main "HOL-Library.Multiset"
begin

section \<open>JavaScript values, file data and the platform\<close>

text \<open>
  The ChatManager class of \<^verbatim>\<open>src/main.js\<close> (lines 247-984; a second copy is
  \<^verbatim>\<open>src/unnamed/part_004\<close>) stores conversations under the directory
  \<^verbatim>\<open>chat_history\<close> and talks to an HTTP server.  This theory embeds its methods as
  HOL functions over an explicit model of the directory tree.

  A JavaScript value that can be written with \<^verbatim>\<open>JSON.stringify\<close> is a \<open>json\<close>.
  Numbers are integers (identifiers, counts and timestamps are), strings are byte
  strings, and an object is the list of its properties in insertion order.  The
  value \<^verbatim>\<open>undefined\<close> is \<open>None\<close> of a \<open>json option\<close>.
\<close>

datatype json =
    JNull
  | JBool bool
  | JNum int
  | JStr string
  | JArr "json list"
  | JObj "(string \<times> json) list"

text \<open>
  The data of a file: \<open>Json v\<close> is the text \<^verbatim>\<open>JSON.stringify(v, null, 2)\<close>, which
  \<^verbatim>\<open>JSON.parse\<close> reads back as \<open>v\<close>; \<open>Raw s\<close> is any other data, given by its bytes.
\<close>

datatype filedata = Json json | Raw string

text \<open>
  What the platform's libraries do is not code of the repository; it is a parameter of
  the model: \<open>parse\<close> is \<^verbatim>\<open>JSON.parse\<close> on a text (\<open>None\<close> when it throws a
  SyntaxError), \<open>pretty\<close> is the text \<^verbatim>\<open>JSON.stringify(v, null, 2)\<close> returns and
  \<open>stringify\<close> the text \<^verbatim>\<open>JSON.stringify(v)\<close> returns; \<open>trim\<close> is
  \<^verbatim>\<open>String.prototype.trim\<close>, which removes the white space and the line terminators
  of Unicode at both ends, and \<open>toLowerCase\<close> is \<^verbatim>\<open>String.prototype.toLowerCase\<close>, the
  lower case mapping of Unicode.  A string is the list of the bytes of its UTF-8 text.
\<close>

record platform =
  parse :: "string \<Rightarrow> json option"
  pretty :: "json \<Rightarrow> string"
  stringify :: "json \<Rightarrow> string"
  trim :: "string \<Rightarrow> string"
  toLowerCase :: "string \<Rightarrow> string"

datatype error =
    ENOENT
  | ENOTDIR
  | EISDIR
  | EEXIST
  | ECONNREFUSED
  | SyntaxError
  | TypeError
  | Error string

definition JSON_parse :: "platform \<Rightarrow> filedata \<Rightarrow> error + json" where
  "JSON_parse P d =
     (case d of
        Json v \<Rightarrow> Inr v
      | Raw s \<Rightarrow> (case parse P s of None \<Rightarrow> Inl SyntaxError | Some v \<Rightarrow> Inr v))"

text \<open>The characters of a file read with the encoding \<^verbatim>\<open>'utf8'\<close> (or its bytes).\<close>

definition text_of :: "platform \<Rightarrow> filedata \<Rightarrow> string" where
  "text_of P d = (case d of Json v \<Rightarrow> pretty P v | Raw s \<Rightarrow> s)"

text \<open>JavaScript's truthiness, as \<^verbatim>\<open>!x\<close> and \<^verbatim>\<open>a && b\<close> test it.\<close>

fun truthy :: "json option \<Rightarrow> bool" where
  "truthy None = False"
| "truthy (Some JNull) = False"
| "truthy (Some (JBool b)) = b"
| "truthy (Some (JNum n)) = (n \<noteq> 0)"
| "truthy (Some (JStr s)) = (s \<noteq> [])"
| "truthy (Some (JArr xs)) = True"
| "truthy (Some (JObj kvs)) = True"

text \<open>
  \<open>setEntry\<close> stores a value under a name in a list of named entries: in place when the
  name is there, at the end otherwise.  It is the assignment \<^verbatim>\<open>obj.k = v\<close> on the
  properties of an object and the creation of an entry in a directory.
\<close>

fun setEntry :: "string \<Rightarrow> 'a \<Rightarrow> (string \<times> 'a) list \<Rightarrow> (string \<times> 'a) list" where
  "setEntry k v [] = [(k, v)]"
| "setEntry k v ((k', v') # es) = (if k' = k then (k, v) # es else (k', v') # setEntry k v es)"

definition deleteEntry :: "string \<Rightarrow> (string \<times> 'a) list \<Rightarrow> (string \<times> 'a) list" where
  "deleteEntry k es = filter (\<lambda>e. fst e \<noteq> k) es"

text \<open>
  Reading a property, \<^verbatim>\<open>x.k\<close>: a TypeError on \<^verbatim>\<open>null\<close>, the property of an object,
  and \<^verbatim>\<open>undefined\<close> on any other value (the names read here, \<^verbatim>\<open>projectType\<close>,
  \<^verbatim>\<open>response\<close> and \<^verbatim>\<open>id\<close>, are on no prototype).
\<close>

fun getProp :: "json \<Rightarrow> string \<Rightarrow> error + json option" where
  "getProp JNull k = Inl TypeError"
| "getProp (JObj kvs) k = Inr (map_of kvs k)"
| "getProp v k = Inr None"

text \<open>
  Assigning a property, \<^verbatim>\<open>x.k = v\<close>, in strict mode (a class body is strict code): a
  TypeError on \<^verbatim>\<open>null\<close> and on a primitive value.  On an array the property is set in
  memory only: \<^verbatim>\<open>JSON.stringify\<close> writes the elements of an array and none of its
  named properties, and the code reads a property it has assigned only to log it, so
  the array is returned as it is.
\<close>

fun setProp :: "json \<Rightarrow> string \<Rightarrow> json \<Rightarrow> error + json" where
  "setProp (JObj kvs) k v = Inr (JObj (setEntry k v kvs))"
| "setProp (JArr xs) k v = Inr (JArr xs)"
| "setProp x k v = Inl TypeError"

subsection \<open>Strings\<close>

text \<open>
  \<^verbatim>\<open>startsWith\<close> and \<^verbatim>\<open>join\<close> on byte strings.  The prefix tested in the code,
  \<^verbatim>\<open>dataknot:\<close>, is ASCII text of nine characters: a string begins with it exactly when
  its bytes do, and \<^verbatim>\<open>substring(9)\<close> then drops these nine bytes.
\<close>

definition startsWith :: "string \<Rightarrow> string \<Rightarrow> bool" where
  "startsWith s p = (take (length p) s = p)"

fun join :: "string \<Rightarrow> string list \<Rightarrow> string" where
  "join sep [] = []"
| "join sep [x] = x"
| "join sep (x # y # ys) = x @ sep @ join sep (y # ys)"

definition digit :: "nat \<Rightarrow> char" where
  "digit d = ''0123456789'' ! d"

text \<open>The decimal digits of a number, as a template literal \<^verbatim>\<open>`${n}`\<close> writes them.\<close>

function decimal :: "nat \<Rightarrow> string" where
  "decimal n = (if n < 10 then [digit n] else decimal (n div 10) @ [digit (n mod 10)])"
  by pat_completeness auto
termination
  by (relation "measure (\<lambda>n. n)") auto

declare decimal.simps [simp del]

section \<open>Conversations\<close>

record message =
  role :: string
  content :: string

text \<open>
  A conversation: its identifier is its creation time (\<^verbatim>\<open>Date.now()\<close>), a natural
  number.  The field is \<open>cid\<close>, since \<open>id\<close> is the identity function of HOL.
\<close>

record conversation =
  cid :: nat
  title :: string
  messages :: "message list"

definition message_json :: "message \<Rightarrow> json" where
  "message_json m = JObj [(''role'', JStr (role m)), (''content'', JStr (content m))]"

text \<open>The value \<^verbatim>\<open>JSON.stringify(conversation, null, 2)\<close> serialises.\<close>

definition conversation_json :: "conversation \<Rightarrow> json" where
  "conversation_json c =
     JObj [(''id'', JNum (int (cid c))),
           (''title'', JStr (title c)),
           (''messages'', JArr (map message_json (messages c)))]"

text \<open>Sequencing of steps that may throw: the first error ends the sequence.\<close>

definition andThen :: "error + 'a \<Rightarrow> ('a \<Rightarrow> error + 'b) \<Rightarrow> error + 'b" where
  "andThen r f = (case r of Inl e \<Rightarrow> Inl e | Inr x \<Rightarrow> f x)"

section \<open>The directory tree\<close>

text \<open>
  The storage is what stands at the path \<^verbatim>\<open>chat_history\<close> (the field
  \<^verbatim>\<open>chatHistoryDir\<close>): nothing, a file, or a directory with its entries in the order
  \<^verbatim>\<open>readdirSync\<close> lists them.  A path is the list of names below \<^verbatim>\<open>chat_history\<close>, so
  \<^verbatim>\<open>path.join(this.chatHistoryDir, file)\<close> is \<open>[file]\<close>; names are single path components.
  Permissions and links are not modelled: an operation fails only for the shape of
  the tree.
\<close>

datatype node = File filedata | Dir "(string \<times> node) list"

type_synonym path = "string list"

type_synonym storage = "node option"

definition chatHistoryDir :: path where
  "chatHistoryDir = []"

fun lookup :: "storage \<Rightarrow> path \<Rightarrow> node option" where
  "lookup r [] = r"
| "lookup (Some (Dir es)) (n # p) = lookup (map_of es n) p"
| "lookup r (n # p) = None"

definition existsSync :: "storage \<Rightarrow> path \<Rightarrow> bool" where
  "existsSync s p = (lookup s p \<noteq> None)"

text \<open>\<^verbatim>\<open>fs.statSync(p).isDirectory()\<close>\<close>

definition isDirectory :: "storage \<Rightarrow> path \<Rightarrow> error + bool" where
  "isDirectory s p =
     (case lookup s p of
        None \<Rightarrow> Inl ENOENT
      | Some (File d) \<Rightarrow> Inr False
      | Some (Dir es) \<Rightarrow> Inr True)"

definition readdirSync :: "storage \<Rightarrow> path \<Rightarrow> error + string list" where
  "readdirSync s p =
     (case lookup s p of
        None \<Rightarrow> Inl ENOENT
      | Some (File d) \<Rightarrow> Inl ENOTDIR
      | Some (Dir es) \<Rightarrow> Inr (map fst es))"

definition readFileSync :: "storage \<Rightarrow> path \<Rightarrow> error + filedata" where
  "readFileSync s p =
     (case lookup s p of
        None \<Rightarrow> Inl ENOENT
      | Some (File d) \<Rightarrow> Inr d
      | Some (Dir es) \<Rightarrow> Inl EISDIR)"

text \<open>
  \<^verbatim>\<open>fs.mkdirSync(p, { recursive: true })\<close>: the directory and its missing ancestors are
  created; a directory that is there is left alone; a file on the way is an error, and
  then nothing has been created.
\<close>

fun mkdirNode :: "node option \<Rightarrow> path \<Rightarrow> error + node" where
  "mkdirNode None [] = Inr (Dir [])"
| "mkdirNode (Some (Dir es)) [] = Inr (Dir es)"
| "mkdirNode (Some (File d)) [] = Inl EEXIST"
| "mkdirNode None (n # p) =
     (case mkdirNode None p of Inl e \<Rightarrow> Inl e | Inr child \<Rightarrow> Inr (Dir [(n, child)]))"
| "mkdirNode (Some (File d)) (n # p) = Inl ENOTDIR"
| "mkdirNode (Some (Dir es)) (n # p) =
     (case mkdirNode (map_of es n) p of
        Inl e \<Rightarrow> Inl e
      | Inr child \<Rightarrow> Inr (Dir (setEntry n child es)))"

definition mkdirSync :: "storage \<Rightarrow> path \<Rightarrow> error + storage" where
  "mkdirSync s p = (case mkdirNode s p of Inl e \<Rightarrow> Inl e | Inr r \<Rightarrow> Inr (Some r))"

text \<open>
  \<^verbatim>\<open>fs.writeFileSync(p, data)\<close>: the file is created or replaced; the directory that
  holds it must exist, and the path must not be a directory.
\<close>

fun writeNode :: "node option \<Rightarrow> path \<Rightarrow> filedata \<Rightarrow> error + node" where
  "writeNode None [] d = Inr (File d)"
| "writeNode (Some (File d')) [] d = Inr (File d)"
| "writeNode (Some (Dir es)) [] d = Inl EISDIR"
| "writeNode None (n # p) d = Inl ENOENT"
| "writeNode (Some (File d')) (n # p) d = Inl ENOTDIR"
| "writeNode (Some (Dir es)) (n # p) d =
     (case writeNode (map_of es n) p d of
        Inl e \<Rightarrow> Inl e
      | Inr child \<Rightarrow> Inr (Dir (setEntry n child es)))"

definition writeFileSync :: "storage \<Rightarrow> path \<Rightarrow> filedata \<Rightarrow> error + storage" where
  "writeFileSync s p d = (case writeNode s p d of Inl e \<Rightarrow> Inl e | Inr r \<Rightarrow> Inr (Some r))"

text \<open>The tree without what stands at a path.\<close>

fun removeAt :: "storage \<Rightarrow> path \<Rightarrow> storage" where
  "removeAt r [] = None"
| "removeAt (Some (Dir es)) [n] = Some (Dir (deleteEntry n es))"
| "removeAt (Some (Dir es)) (n # m # p) =
     (case removeAt (map_of es n) (m # p) of
        None \<Rightarrow> Some (Dir es)
      | Some child \<Rightarrow> Some (Dir (setEntry n child es)))"
| "removeAt r (n # p) = r"

section \<open>ChatManager: the conversation repository\<close>

text \<open>
  A method that catches its errors returns the storage it has reached.  A step that may
  throw returns the error, if any, with the storage reached when it was thrown:
  \<open>attempt s r\<close> is the outcome of one file operation \<open>r\<close> started in the storage \<open>s\<close>.
  What \<^verbatim>\<open>console.log\<close> and its kin print is not modelled.  The parameter \<open>now\<close> of a
  method is the value of \<^verbatim>\<open>Date.now()\<close> during the call: a call is modelled at one
  instant.
\<close>

definition attempt :: "storage \<Rightarrow> error + storage \<Rightarrow> error option \<times> storage" where
  "attempt s r = (case r of Inl e \<Rightarrow> (Some e, s) | Inr s' \<Rightarrow> (None, s'))"

text \<open>\<^verbatim>\<open>xs.forEach(f)\<close> for a callback that may throw: the first error ends the loop.\<close>

fun forEach :: "('a \<Rightarrow> storage \<Rightarrow> error option \<times> storage) \<Rightarrow> 'a list \<Rightarrow> storage
    \<Rightarrow> error option \<times> storage" where
  "forEach f [] s = (None, s)"
| "forEach f (x # xs) s =
     (case f x s of
        (None, s') \<Rightarrow> forEach f xs s'
      | (Some e, s') \<Rightarrow> (Some e, s'))"

text \<open>\<^verbatim>\<open>xs.filter(f)\<close> for a callback that may throw.\<close>

fun filterE :: "('a \<Rightarrow> error + bool) \<Rightarrow> 'a list \<Rightarrow> error + 'a list" where
  "filterE f [] = Inr []"
| "filterE f (x # xs) =
     andThen (f x) (\<lambda>keep. andThen (filterE f xs) (\<lambda>ys. Inr (if keep then x # ys else ys)))"

text \<open>The name of a conversation's directory, \<^verbatim>\<open>`chat_${conversationId}`\<close>.\<close>

definition conversationDir :: "nat \<Rightarrow> string" where
  "conversationDir conversationId = ''chat_'' @ decimal conversationId"

text \<open>
  \<^verbatim>\<open>removeDirectoryRecursive(dirPath)\<close> (main.js 618-632) unlinks every file and removes
  every directory below \<open>dirPath\<close>, children first, then \<open>dirPath\<close> itself; no step of
  it can fail for the shape of a tree, so its effect is that the tree at \<open>dirPath\<close>
  is gone.  On a file \<^verbatim>\<open>readdirSync\<close> throws.
\<close>

definition removeDirectoryRecursive :: "storage \<Rightarrow> path \<Rightarrow> error + storage" where
  "removeDirectoryRecursive s dirPath =
     (if existsSync s dirPath
      then andThen (readdirSync s dirPath) (\<lambda>files. Inr (removeAt s dirPath))
      else Inr s)"

subsection \<open>createArtifactsDirectories (main.js 637-663)\<close>

definition createArtifactsDirectory :: "string \<Rightarrow> storage \<Rightarrow> error option \<times> storage" where
  "createArtifactsDirectory file s =
     (case isDirectory s (chatHistoryDir @ [file]) of
        Inl e \<Rightarrow> (Some e, s)
      | Inr d \<Rightarrow>
          if d \<and> startsWith file ''chat_''
          then (let artifactsPath = chatHistoryDir @ [file, ''artifacts''] in
                if \<not> existsSync s artifactsPath
                then attempt s (mkdirSync s artifactsPath)
                else (None, s))
          else (None, s))"

definition createArtifactsDirectories :: "storage \<Rightarrow> storage" where
  "createArtifactsDirectories s =
     (if \<not> existsSync s chatHistoryDir then s
      else case readdirSync s chatHistoryDir of
             Inl e \<Rightarrow> s
           | Inr files \<Rightarrow> snd (forEach createArtifactsDirectory files s))"

subsection \<open>initializeDefaultProjectTypes (main.js 475-513)\<close>

text \<open>
  The inner \<^verbatim>\<open>try\<close> block (lines 490-504): the metadata is read and parsed, and written
  back with the project type \<^verbatim>\<open>chat\<close> and a new modification time when it has none.
  \<open>now\<close> is the value of \<^verbatim>\<open>Date.now()\<close>.  An error is logged and the file is left as
  it is.
\<close>

definition backfillProjectType :: "platform \<Rightarrow> int \<Rightarrow> path \<Rightarrow> storage \<Rightarrow> storage" where
  "backfillProjectType P now metadataFile s =
     (case andThen (readFileSync s metadataFile) (\<lambda>metadataContent.
           andThen (JSON_parse P metadataContent) (\<lambda>metadata.
           andThen (getProp metadata ''projectType'') (\<lambda>projectType.
             if \<not> truthy projectType
             then andThen (setProp metadata ''projectType'' (JStr ''chat'')) (\<lambda>m1.
                  andThen (setProp m1 ''lastModified'' (JNum now)) (\<lambda>m2.
                  writeFileSync s metadataFile (Json m2)))
             else Inr s))) of
        Inl e \<Rightarrow> s
      | Inr s' \<Rightarrow> s')"

definition initializeDefaultProjectType :: "platform \<Rightarrow> int \<Rightarrow> string \<Rightarrow> storage
    \<Rightarrow> error option \<times> storage" where
  "initializeDefaultProjectType P now file s =
     (case isDirectory s (chatHistoryDir @ [file]) of
        Inl e \<Rightarrow> (Some e, s)
      | Inr d \<Rightarrow>
          if d \<and> startsWith file ''chat_''
          then (let metadataFile = chatHistoryDir @ [file, ''metadata.json''] in
                if existsSync s metadataFile
                then (None, backfillProjectType P now metadataFile s)
                else (None, s))
          else (None, s))"

definition initializeDefaultProjectTypes :: "platform \<Rightarrow> int \<Rightarrow> storage \<Rightarrow> storage" where
  "initializeDefaultProjectTypes P now s =
     (if \<not> existsSync s chatHistoryDir then s
      else case readdirSync s chatHistoryDir of
             Inl e \<Rightarrow> s
           | Inr files \<Rightarrow> snd (forEach (initializeDefaultProjectType P now) files s))"

subsection \<open>loadChatHistory (main.js 558-598)\<close>

text \<open>
  The number an identifier is in the subtraction \<^verbatim>\<open>b.id - a.id\<close>, \<open>None\<close> for NaN.  A
  value that is no number counts as NaN (JavaScript would convert \<^verbatim>\<open>null\<close>, a boolean
  and a numeric string; the conversations this class writes have numbers).
\<close>

fun toNumber :: "json option \<Rightarrow> int option" where
  "toNumber (Some (JNum n)) = Some n"
| "toNumber v = None"

text \<open>
  The comparator \<^verbatim>\<open>(a, b) => b.id - a.id\<close>; it throws on \<^verbatim>\<open>null\<close>.  The sort takes a
  result that is NaN for 0.
\<close>

definition compareIds :: "json \<Rightarrow> json \<Rightarrow> error + int" where
  "compareIds a b =
     andThen (getProp b ''id'') (\<lambda>bid.
     andThen (getProp a ''id'') (\<lambda>aid.
       Inr (case (toNumber bid, toNumber aid) of
              (Some y, Some x) \<Rightarrow> y - x
            | _ \<Rightarrow> 0)))"

text \<open>
  \<^verbatim>\<open>conversations.sort(...)\<close> as a stable insertion sort.  Every comparison sort calls
  the comparator on each element of a list of two or more, so the sort throws when one
  of them is \<^verbatim>\<open>null\<close>; all stable sorts agree when the comparator is an order, which it
  is when every identifier is a number.
\<close>

fun insertSorted :: "json \<Rightarrow> json list \<Rightarrow> error + json list" where
  "insertSorted x [] = Inr [x]"
| "insertSorted x (y # ys) =
     andThen (compareIds x y) (\<lambda>c.
       if c \<le> 0 then Inr (x # y # ys)
       else andThen (insertSorted x ys) (\<lambda>zs. Inr (y # zs)))"

fun sortSorted :: "json list \<Rightarrow> error + json list" where
  "sortSorted [] = Inr []"
| "sortSorted (x # xs) = andThen (sortSorted xs) (insertSorted x)"

definition sortConversations :: "json list \<Rightarrow> error + json list" where
  "sortConversations conversations =
     (if 2 \<le> length conversations \<and> JNull \<in> set conversations then Inl TypeError
      else sortSorted conversations)"

text \<open>The body of the loop over the conversation directories (lines 576-587).\<close>

definition loadConversation :: "platform \<Rightarrow> storage \<Rightarrow> string \<Rightarrow> json list" where
  "loadConversation P s dir =
     (let conversationFile = chatHistoryDir @ [dir, ''conversation.json''] in
      if existsSync s conversationFile
      then (case andThen (readFileSync s conversationFile) (JSON_parse P) of
              Inl e \<Rightarrow> []
            | Inr conversation \<Rightarrow> [conversation])
      else [])"

definition loadChatHistory :: "platform \<Rightarrow> storage \<Rightarrow> json list \<times> storage" where
  "loadChatHistory P s =
     (if \<not> existsSync s chatHistoryDir then ([], s)
      else case andThen (readdirSync s chatHistoryDir) (\<lambda>files.
                andThen (filterE (\<lambda>file. andThen (isDirectory s (chatHistoryDir @ [file]))
                                     (\<lambda>d. Inr (d \<and> startsWith file ''chat_''))) files)
                  (\<lambda>conversationDirs.
                sortConversations (concat (map (loadConversation P s) conversationDirs)))) of
             Inl e \<Rightarrow> ([], s)
           | Inr conversations \<Rightarrow> (conversations, s))"

subsection \<open>saveChatHistory (main.js 338-470)\<close>

text \<open>The loop that clears the conversation folders (lines 347-354).\<close>

definition clearConversationFolder :: "string \<Rightarrow> storage \<Rightarrow> error option \<times> storage" where
  "clearConversationFolder file s =
     (case isDirectory s (chatHistoryDir @ [file]) of
        Inl e \<Rightarrow> (Some e, s)
      | Inr d \<Rightarrow>
          if d \<and> startsWith file ''chat_''
          then attempt s (removeDirectoryRecursive s (chatHistoryDir @ [file]))
          else (None, s))"

text \<open>The existing metadata, or an empty object (lines 378-391).\<close>

definition readExistingMetadata :: "platform \<Rightarrow> storage \<Rightarrow> path \<Rightarrow> json" where
  "readExistingMetadata P s metadataFile =
     (if existsSync s metadataFile
      then (case andThen (readFileSync s metadataFile) (JSON_parse P) of
              Inl e \<Rightarrow> JObj []
            | Inr metadata \<Rightarrow> metadata)
      else JObj [])"

text \<open>The standard fields and the default project type (lines 393-404).\<close>

definition standardFields :: "conversation \<Rightarrow> int \<Rightarrow> json \<Rightarrow> error + json" where
  "standardFields conversation now metadata =
     andThen (setProp metadata ''id'' (JNum (int (cid conversation)))) (\<lambda>m1.
     andThen (setProp m1 ''title'' (JStr (title conversation))) (\<lambda>m2.
     andThen (setProp m2 ''created'' (JNum (int (cid conversation)))) (\<lambda>m3.
     andThen (setProp m3 ''lastModified'' (JNum now)) (\<lambda>m4.
     andThen (setProp m4 ''messageCount'' (JNum (int (length (messages conversation))))) (\<lambda>m5.
     andThen (setProp m5 ''version'' (JStr ''1.0'')) (\<lambda>m6.
     andThen (getProp m6 ''projectType'') (\<lambda>projectType.
       if \<not> truthy projectType \<or> projectType = Some (JStr [])
       then setProp m6 ''projectType'' (JStr ''chat'')
       else Inr m6)))))))"

text \<open>The last message of the user, \<^verbatim>\<open>messages.filter(...).pop()\<close> (lines 410-412).\<close>

definition lastUserMessage :: "conversation \<Rightarrow> message option" where
  "lastUserMessage conversation =
     (case filter (\<lambda>msg. role msg = ''user'') (messages conversation) of
        [] \<Rightarrow> None
      | m # ms \<Rightarrow> Some (last (m # ms)))"

text \<open>The DataKnot command processing (lines 414-444).\<close>

definition dataknotCommand :: "platform \<Rightarrow> conversation \<Rightarrow> int \<Rightarrow> json \<Rightarrow> error + json" where
  "dataknotCommand P conversation now metadata =
     (case lastUserMessage conversation of
        None \<Rightarrow> Inr metadata
      | Some lastMessage \<Rightarrow>
          (let messageContent = toLowerCase P (trim P (content lastMessage)) in
           if startsWith messageContent ''dataknot:''
           then (let command = trim P (drop 9 messageContent) in
                 if command = ''start recipe''
                 then andThen (setProp metadata ''projectType'' (JStr ''recipe'')) (\<lambda>m1.
                      setProp m1 ''lastModified'' (JNum now))
                 else Inr metadata)
           else Inr metadata))"

definition updateMetadata :: "platform \<Rightarrow> conversation \<Rightarrow> int \<Rightarrow> json \<Rightarrow> error + json" where
  "updateMetadata P conversation now metadata =
     andThen (standardFields conversation now metadata) (dataknotCommand P conversation now)"

text \<open>
  The body of the loop over the conversations (lines 357-466).  The last block of the
  body (lines 450-465) reads the metadata back inside a \<^verbatim>\<open>try\<close> of its own and logs
  it; it returns nothing and writes nothing.
\<close>

definition saveConversation :: "platform \<Rightarrow> int \<Rightarrow> conversation \<Rightarrow> storage
    \<Rightarrow> error option \<times> storage" where
  "saveConversation P now conversation s =
     (let conversationPath = chatHistoryDir @ [conversationDir (cid conversation)];
          artifactsPath = conversationPath @ [''artifacts''];
          conversationFile = conversationPath @ [''conversation.json''];
          metadataFile = conversationPath @ [''metadata.json'']
      in case (if \<not> existsSync s conversationPath then mkdirSync s conversationPath else Inr s) of
           Inl e \<Rightarrow> (Some e, s)
         | Inr s1 \<Rightarrow>
        (case (if \<not> existsSync s1 artifactsPath then mkdirSync s1 artifactsPath else Inr s1) of
           Inl e \<Rightarrow> (Some e, s1)
         | Inr s2 \<Rightarrow>
        (case writeFileSync s2 conversationFile (Json (conversation_json conversation)) of
           Inl e \<Rightarrow> (Some e, s2)
         | Inr s3 \<Rightarrow>
        (case updateMetadata P conversation now (readExistingMetadata P s3 metadataFile) of
           Inl e \<Rightarrow> (Some e, s3)
         | Inr metadata \<Rightarrow> attempt s3 (writeFileSync s3 metadataFile (Json metadata))))))"

definition saveChatHistory :: "platform \<Rightarrow> int \<Rightarrow> conversation list \<Rightarrow> storage \<Rightarrow> storage" where
  "saveChatHistory P now conversations s =
     (case (if \<not> existsSync s chatHistoryDir then mkdirSync s chatHistoryDir else Inr s) of
        Inl e \<Rightarrow> s
      | Inr s1 \<Rightarrow>
     (case readdirSync s1 chatHistoryDir of
        Inl e \<Rightarrow> s1
      | Inr files \<Rightarrow>
     (case forEach clearConversationFolder files s1 of
        (Some e, s2) \<Rightarrow> s2
      | (None, s2) \<Rightarrow> snd (forEach (saveConversation P now) conversations s2))))"

subsection \<open>initChatHistory (main.js 284-307)\<close>

definition initChatHistory :: "platform \<Rightarrow> int \<Rightarrow> storage \<Rightarrow> json list \<times> storage" where
  "initChatHistory P now s =
     (case (if \<not> existsSync s chatHistoryDir then mkdirSync s chatHistoryDir else Inr s) of
        Inl e \<Rightarrow> ([], s)
      | Inr s1 \<Rightarrow>
          loadChatHistory P (initializeDefaultProjectTypes P now (createArtifactsDirectories s1)))"

section \<open>ChatManager: the artifact store\<close>

text \<open>
  The data \<^verbatim>\<open>writeFileSync\<close> takes is a string (or a buffer, a byte string here); any
  other value is a TypeError.
\<close>

fun stringData :: "json \<Rightarrow> error + string" where
  "stringData (JStr t) = Inr t"
| "stringData v = Inl TypeError"

text \<open>The \<^verbatim>\<open>try\<close> block of \<^verbatim>\<open>saveConversationArtifact\<close> (main.js 674-704).\<close>

definition saveConversationArtifact_try :: "nat \<Rightarrow> string \<Rightarrow> json \<Rightarrow> string \<Rightarrow> storage
    \<Rightarrow> error option \<times> storage" where
  "saveConversationArtifact_try conversationId artifactName data typ s =
     (let conversationPath = chatHistoryDir @ [conversationDir conversationId];
          artifactsPath = conversationPath @ [''artifacts'']
      in case (if \<not> existsSync s conversationPath then mkdirSync s conversationPath else Inr s) of
           Inl e \<Rightarrow> (Some e, s)
         | Inr s1 \<Rightarrow>
        (case (if \<not> existsSync s1 artifactsPath then mkdirSync s1 artifactsPath else Inr s1) of
           Inl e \<Rightarrow> (Some e, s1)
         | Inr s2 \<Rightarrow>
            (let artifactPath = artifactsPath @ [artifactName] in
             if typ = ''json'' then attempt s2 (writeFileSync s2 artifactPath (Json data))
             else if typ = ''text''
             then attempt s2 (andThen (stringData data) (\<lambda>t. writeFileSync s2 artifactPath (Raw t)))
             else if typ = ''binary''
             then attempt s2 (andThen (stringData data) (\<lambda>t. writeFileSync s2 artifactPath (Raw t)))
             else (Some (Error (''Unsupported artifact type: '' @ typ)), s2))))"

text \<open>
  \<^verbatim>\<open>saveConversationArtifact\<close> (main.js 672-708): the \<^verbatim>\<open>catch\<close> logs the error, and the
  method returns \<^verbatim>\<open>undefined\<close> either way.  The result is what the caller gets: \<open>Inl\<close>
  an error thrown to it, \<open>Inr\<close> a normal return.
\<close>

definition saveConversationArtifact :: "nat \<Rightarrow> string \<Rightarrow> json \<Rightarrow> string \<Rightarrow> storage
    \<Rightarrow> (error + unit) \<times> storage" where
  "saveConversationArtifact conversationId artifactName data typ s =
     (case saveConversationArtifact_try conversationId artifactName data typ s of
        (Some e, s') \<Rightarrow> (Inr (), s')
      | (None, s') \<Rightarrow> (Inr (), s'))"

text \<open>The \<^verbatim>\<open>try\<close> block of \<^verbatim>\<open>loadConversationArtifact\<close> (main.js 719-739).\<close>

definition loadConversationArtifact_try :: "platform \<Rightarrow> nat \<Rightarrow> string \<Rightarrow> string \<Rightarrow> storage
    \<Rightarrow> error + json" where
  "loadConversationArtifact_try P conversationId artifactName typ s =
     (let artifactPath =
            chatHistoryDir @ [conversationDir conversationId, ''artifacts'', artifactName]
      in if \<not> existsSync s artifactPath then Inr JNull
         else andThen (readFileSync s artifactPath) (\<lambda>data.
                if typ = ''json'' then JSON_parse P data
                else if typ = ''text'' then Inr (JStr (text_of P data))
                else if typ = ''binary'' then Inr (JStr (text_of P data))
                else Inl (Error (''Unsupported artifact type: '' @ typ))))"

text \<open>
  \<^verbatim>\<open>loadConversationArtifact\<close> (main.js 717-744): the \<^verbatim>\<open>catch\<close> logs the error and
  returns \<^verbatim>\<open>null\<close>.
\<close>

definition loadConversationArtifact :: "platform \<Rightarrow> nat \<Rightarrow> string \<Rightarrow> string \<Rightarrow> storage
    \<Rightarrow> (error + json) \<times> storage" where
  "loadConversationArtifact P conversationId artifactName typ s =
     (case loadConversationArtifact_try P conversationId artifactName typ s of
        Inl e \<Rightarrow> (Inr JNull, s)
      | Inr v \<Rightarrow> (Inr v, s))"

text \<open>\<^verbatim>\<open>getConversationArtifacts\<close> (main.js 751-767).\<close>

definition getConversationArtifacts :: "nat \<Rightarrow> storage \<Rightarrow> string list \<times> storage" where
  "getConversationArtifacts conversationId s =
     (let artifactsPath = chatHistoryDir @ [conversationDir conversationId, ''artifacts''] in
      if \<not> existsSync s artifactsPath then ([], s)
      else case readdirSync s artifactsPath of
             Inl e \<Rightarrow> ([], s)
           | Inr files \<Rightarrow> (files, s))"

section \<open>The inference gateway: sendMessageToAPI\<close>

text \<open>
  The context building of \<^verbatim>\<open>sendMessageToAPI\<close> (main.js 915-927): the prompt is the new
  message when the buffer is empty; otherwise every buffered message is written as
  \<^verbatim>\<open>User: ...\<close> or \<^verbatim>\<open>AI: ...\<close>, the lines are joined with two newlines, and the new message
  follows as a \<^verbatim>\<open>User: ...\<close> line.
\<close>

definition contextLine :: "message \<Rightarrow> string" where
  "contextLine msg = (if role msg = ''user'' then ''User'' else ''AI'') @ '': '' @ content msg"

definition buildContext :: "message list \<Rightarrow> string \<Rightarrow> string" where
  "buildContext conversationBuffer messageContent =
     (if length conversationBuffer > 0
      then join [CHR 0x0A, CHR 0x0A] (map contextLine conversationBuffer)
           @ [CHR 0x0A, CHR 0x0A] @ ''User: '' @ messageContent
      else messageContent)"

text \<open>
  The request handed to \<^verbatim>\<open>http.request\<close> (lines 929-957 and 977).  The headers are the
  content type and length and, for the Claude model with an API key that is truthy,
  the key.  The field \<open>requestMethod\<close> is the option \<^verbatim>\<open>method\<close>.
\<close>

record request =
  hostname :: string
  port :: nat
  path :: string
  requestMethod :: string
  headers :: "(string \<times> json) list"
  body :: string

definition postDataOf :: "platform \<Rightarrow> string \<Rightarrow> string \<Rightarrow> string" where
  "postDataOf P fullPrompt model =
     stringify P (JObj [(''prompt'', JStr fullPrompt),
                        (''model'', JStr model),
                        (''reset_conversation'', JBool False)])"

definition requestHeaders :: "string \<Rightarrow> json \<Rightarrow> string \<Rightarrow> (string \<times> json) list" where
  "requestHeaders model claudeApiKey postData =
     (let headers = [(''Content-Type'', JStr ''application/json''),
                     (''Content-Length'', JNum (int (length postData)))]
      in if model = ''claude-sonnet-4-5'' \<and> truthy (Some claudeApiKey)
         then setEntry ''claude-api-key'' claudeApiKey headers
         else headers)"

text \<open>The same lines of the second copy of the class (part_004 567-577).\<close>

definition requestHeaders_part_004 :: "string \<Rightarrow> json \<Rightarrow> string \<Rightarrow> (string \<times> json) list" where
  "requestHeaders_part_004 model claudeApiKey postData =
     (let headers = [(''Content-Type'', JStr ''application/json''),
                     (''Content-Length'', JNum (int (length postData)))]
      in if model = ''claude-3-5-sonnet'' \<and> truthy (Some claudeApiKey)
         then setEntry ''claude-api-key'' claudeApiKey headers
         else headers)"

text \<open>
  What the server does is the parameter \<open>exchange\<close>: the request fails with an error
  (the \<^verbatim>\<open>error\<close> event), or a response arrives whose chunks make up a body.
\<close>

datatype exchange = Failed error | Replied filedata

text \<open>
  The settling of the promise (lines 959-975): \<open>Inl\<close> is \<^verbatim>\<open>reject\<close>, \<open>Inr\<close> is
  \<^verbatim>\<open>resolve\<close> with a value or with \<^verbatim>\<open>undefined\<close>.  An error inside the \<^verbatim>\<open>try\<close> of the
  \<^verbatim>\<open>end\<close> handler becomes the error \<^verbatim>\<open>Invalid JSON response from server\<close>.
\<close>

definition settle :: "platform \<Rightarrow> exchange \<Rightarrow> error + json option" where
  "settle P exchange =
     (case exchange of
        Failed error \<Rightarrow> Inl error
      | Replied responseData \<Rightarrow>
          (case andThen (JSON_parse P responseData) (\<lambda>data. getProp data ''response'') of
             Inl e \<Rightarrow> Inl (Error ''Invalid JSON response from server'')
           | Inr response \<Rightarrow> Inr response))"

text \<open>
  \<^verbatim>\<open>sendMessageToAPI\<close> (main.js 911-983): the request that is sent and how the promise
  is settled.
\<close>

definition sendMessageToAPI :: "platform \<Rightarrow> string \<Rightarrow> message list \<Rightarrow> string \<Rightarrow> json \<Rightarrow> exchange
    \<Rightarrow> request \<times> (error + json option)" where
  "sendMessageToAPI P messageContent conversationBuffer model claudeApiKey exchange =
     (let fullPrompt = buildContext conversationBuffer messageContent;
          postData = postDataOf P fullPrompt model
      in (\<lparr>hostname = ''127.0.0.1'', port = 8000, path = ''/chat'', requestMethod = ''POST'',
           headers = requestHeaders model claudeApiKey postData, body = postData\<rparr>,
          settle P exchange))"

text \<open>The method of the second copy of the class (part_004 549-613).\<close>

definition sendMessageToAPI_part_004 :: "platform \<Rightarrow> string \<Rightarrow> message list \<Rightarrow> string \<Rightarrow> json
    \<Rightarrow> exchange \<Rightarrow> request \<times> (error + json option)" where
  "sendMessageToAPI_part_004 P messageContent conversationBuffer model claudeApiKey exchange =
     (let fullPrompt = buildContext conversationBuffer messageContent;
          postData = postDataOf P fullPrompt model
      in (\<lparr>hostname = ''127.0.0.1'', port = 8000, path = ''/chat'', requestMethod = ''POST'',
           headers = requestHeaders_part_004 model claudeApiKey postData, body = postData\<rparr>,
          settle P exchange))"

section \<open>A platform for concrete inputs\<close>

text \<open>
  On ASCII text the white space that \<^verbatim>\<open>trim\<close> removes is the tab, the line feed, the
  vertical tab, the form feed, the carriage return and the space, and \<^verbatim>\<open>toLowerCase\<close>
  maps the letters A to Z to a to z and changes nothing else.
\<close>

definition asciiWhiteSpace :: "char \<Rightarrow> bool" where
  "asciiWhiteSpace c = (c \<in> set [CHR 0x09, CHR 0x0A, CHR 0x0B, CHR 0x0C, CHR 0x0D, CHR '' ''])"

definition asciiTrim :: "string \<Rightarrow> string" where
  "asciiTrim s = rev (dropWhile asciiWhiteSpace (rev (dropWhile asciiWhiteSpace s)))"

definition asciiLowerChar :: "char \<Rightarrow> char" where
  "asciiLowerChar c =
     (case map_of (zip ''ABCDEFGHIJKLMNOPQRSTUVWXYZ'' ''abcdefghijklmnopqrstuvwxyz'') c of
        Some d \<Rightarrow> d
      | None \<Rightarrow> c)"

definition asciiLowerCase :: "string \<Rightarrow> string" where
  "asciiLowerCase s = map asciiLowerChar s"

text \<open>
  The concrete inputs below hold ASCII text only and no raw text that is a JSON text,
  and the length of a JSON text plays no part in them: there the platform is one that
  rejects every raw text, writes every value as the empty text, and trims and lowers
  as the platform does on ASCII text.
\<close>

definition rejecting :: platform where
  "rejecting = \<lparr>parse = (\<lambda>s. None), pretty = (\<lambda>v. []), stringify = (\<lambda>v. []),
                 trim = asciiTrim, toLowerCase = asciiLowerCase\<rparr>"

section \<open>Theorems\<close>

subsection \<open>The context sent with a message\<close>

lemma join_Cons:
  "join sep (x # xs) = x @ concat (map (\<lambda>y. sep @ y) xs)"
  by (induction xs arbitrary: x) auto

text \<open>
  Claim C3.  The prompt built from the buffer and the new message depends on these two
  alone.  For an empty buffer it is the new message itself, so the empty buffer and
  \<^verbatim>\<open>hi\<close> give \<^verbatim>\<open>hi\<close>.  For a buffer with a first message \<open>b\<close> and further messages \<open>bs\<close> it is
  the line of \<open>b\<close>, then a blank line and the line of every further message, then a
  blank line and \<^verbatim>\<open>User: \<close> with the new message; the line of a message is its content
  after \<^verbatim>\<open>User: \<close> when its role is \<^verbatim>\<open>user\<close> and after \<^verbatim>\<open>AI: \<close> for any other role.  The
  buffer of a user message \<^verbatim>\<open>a\<close> and an assistant message \<^verbatim>\<open>b\<close> with the new message
  \<^verbatim>\<open>c\<close> gives the five lines \<^verbatim>\<open>User: a\<close>, blank, \<^verbatim>\<open>AI: b\<close>, blank, \<^verbatim>\<open>User: c\<close>.
\<close>

theorem buildContext_transcript:
  "buildContext [] m = m
   \<and> buildContext [] ''hi'' = ''hi''
   \<and> buildContext (b # bs) m =
       contextLine b @ concat (map (\<lambda>x. [CHR 0x0A, CHR 0x0A] @ contextLine x) bs)
       @ [CHR 0x0A, CHR 0x0A] @ ''User: '' @ m
   \<and> contextLine x = (if role x = ''user'' then ''User: '' else ''AI: '') @ content x
   \<and> contextLine \<lparr>role = ''user'', content = t\<rparr> = ''User: '' @ t
   \<and> contextLine \<lparr>role = ''assistant'', content = t\<rparr> = ''AI: '' @ t
   \<and> buildContext [\<lparr>role = ''user'', content = ''a''\<rparr>, \<lparr>role = ''assistant'', content = ''b''\<rparr>] ''c''
       = ''User: a'' @ [CHR 0x0A, CHR 0x0A] @ ''AI: b'' @ [CHR 0x0A, CHR 0x0A] @ ''User: c''"
  by (simp add: buildContext_def contextLine_def join_Cons comp_def)

subsection \<open>Facts about the directory tree\<close>

lemma lookup_None [simp]: "lookup None p = None"
  by (cases p) auto

lemma map_of_setEntry [simp]: "map_of (setEntry k v es) = (map_of es)(k \<mapsto> v)"
  by (induction es) auto

lemma conversationDir_Suc_0: "conversationDir (Suc 0) = ''chat_1''"
  by (simp add: conversationDir_def decimal.simps digit_def)

lemma conversationDir_1: "conversationDir 1 = ''chat_1''"
  by (simp add: conversationDir_def decimal.simps digit_def)

lemma conversationDir_2: "conversationDir 2 = ''chat_2''"
  by (simp add: conversationDir_def decimal.simps digit_def)

lemma setEntry_fresh: "k \<notin> fst ` set es \<Longrightarrow> setEntry k v es = es @ [(k, v)]"
  by (induction es) auto

lemma setEntry_setEntry [simp]: "setEntry k v (setEntry k w es) = setEntry k v es"
  by (induction es) auto

lemma mkdirSync_one:
  "map_of es f = None \<Longrightarrow>
   mkdirSync (Some (Dir es)) [f] = Inr (Some (Dir (setEntry f (Dir []) es)))"
  by (simp add: mkdirSync_def)

lemma mkdirSync_two:
  "map_of es f = Some (Dir cs) \<Longrightarrow> map_of cs a = None \<Longrightarrow>
   mkdirSync (Some (Dir es)) [f, a] = Inr (Some (Dir (setEntry f (Dir (setEntry a (Dir []) cs)) es)))"
  by (simp add: mkdirSync_def)

lemma writeFileSync_two:
  "writeFileSync (Some (Dir es)) [f, m] d =
     (case map_of es f of
        None \<Rightarrow> Inl ENOENT
      | Some (File x) \<Rightarrow> Inl ENOTDIR
      | Some (Dir cs) \<Rightarrow>
          (case map_of cs m of
             Some (Dir ds) \<Rightarrow> Inl EISDIR
           | _ \<Rightarrow> Inr (Some (Dir (setEntry f (Dir (setEntry m (File d) cs)) es)))))"
  by (auto simp: writeFileSync_def split: option.splits node.splits sum.splits)

lemma setProp_result:
  "setProp v k x = Inr v' \<Longrightarrow>
     (\<exists>kvs. v = JObj kvs \<and> v' = JObj (setEntry k x kvs)) \<or> (\<exists>xs. v = JArr xs \<and> v' = v)"
  by (cases v) auto

lemma loadChatHistory_snd: "snd (loadChatHistory P s) = s"
  by (simp add: loadChatHistory_def split: sum.splits)

text \<open>Two numbers with the same decimal digits are equal.\<close>

lemma digit_inj: "m < 10 \<Longrightarrow> n < 10 \<Longrightarrow> digit m = digit n \<Longrightarrow> m = n"
proof -
  assume "m < 10" "n < 10" "digit m = digit n"
  moreover have "\<And>k. k < 10 \<Longrightarrow> k \<in> {0, 1, 2, 3, 4, 5, 6, 7, 8, 9::nat}" by auto
  ultimately have "m \<in> {0, 1, 2, 3, 4, 5, 6, 7, 8, 9::nat}" "n \<in> {0, 1, 2, 3, 4, 5, 6, 7, 8, 9::nat}"
    by blast+
  with \<open>digit m = digit n\<close> show "m = n"
    by (auto simp: digit_def)
qed

lemma decimal_nonempty: "decimal n \<noteq> []"
  by (subst decimal.simps) simp

lemma decimal_inj: "decimal m = decimal n \<Longrightarrow> m = n"
proof (induction m arbitrary: n rule: decimal.induct)
  case (1 m)
  show ?case
  proof (cases "m < 10")
    case True
    then have m: "decimal m = [digit m]" by (subst decimal.simps) simp
    show ?thesis
    proof (cases "n < 10")
      case True
      then have "decimal n = [digit n]" by (subst decimal.simps) simp
      with m "1.prems" \<open>m < 10\<close> True show ?thesis by (simp add: digit_inj)
    next
      case False
      then have "decimal n = decimal (n div 10) @ [digit (n mod 10)]"
        by (subst decimal.simps) simp
      with m "1.prems" decimal_nonempty [of "n div 10"] show ?thesis by (cases "decimal (n div 10)") auto
    qed
  next
    case False
    then have m: "decimal m = decimal (m div 10) @ [digit (m mod 10)]"
      by (subst decimal.simps) simp
    show ?thesis
    proof (cases "n < 10")
      case True
      then have "decimal n = [digit n]" by (subst decimal.simps) simp
      with m "1.prems" decimal_nonempty [of "m div 10"] show ?thesis by (cases "decimal (m div 10)") auto
    next
      case nf: False
      then have "decimal n = decimal (n div 10) @ [digit (n mod 10)]"
        by (subst decimal.simps) simp
      with m "1.prems" have a: "decimal (m div 10) = decimal (n div 10)"
        and b: "digit (m mod 10) = digit (n mod 10)" by auto
      from "1.IH" [OF False a] have "m div 10 = n div 10" .
      moreover from b have "m mod 10 = n mod 10" by (intro digit_inj) auto
      ultimately show ?thesis by (metis div_mult_mod_eq)
    qed
  qed
qed

lemma conversationDir_inj: "conversationDir m = conversationDir n \<Longrightarrow> m = n"
  by (simp add: conversationDir_def decimal_inj)

lemma conversationDir_chat: "startsWith (conversationDir n) ''chat_''"
  by (simp add: conversationDir_def startsWith_def)

text \<open>Creating directories creates no file and changes none.\<close>

lemma mkdirNode_files:
  "mkdirNode r p = Inr r' \<Longrightarrow> lookup (Some r') q = Some (File d) \<Longrightarrow> lookup r q = Some (File d)"
proof (induction r p arbitrary: r' q rule: mkdirNode.induct)
  case 1
  then show ?case by (cases q) auto
next
  case (4 n p)
  then show ?case by (cases q) (fastforce split: sum.splits if_splits)+
next
  case (6 es n p)
  then show ?case by (cases q) (auto split: sum.splits if_splits)
qed auto

lemma mkdirSync_files:
  "mkdirSync s p = Inr s' \<Longrightarrow> lookup s' q = Some (File d) \<Longrightarrow> lookup s q = Some (File d)"
  by (auto simp: mkdirSync_def split: sum.splits dest: mkdirNode_files)

subsection \<open>Persisting and loading the conversations\<close>

text \<open>
  The clearing loop removes the directories whose names begin with \<^verbatim>\<open>chat_\<close> and leaves
  every other entry.
\<close>

lemma clear_step:
  "map_of es f = Some n \<Longrightarrow>
   clearConversationFolder f (Some (Dir es))
   = (None, Some (Dir (if (\<exists>cs. n = Dir cs) \<and> startsWith f ''chat_'' then deleteEntry f es else es)))"
  by (cases n)
     (auto simp: clearConversationFolder_def isDirectory_def chatHistoryDir_def attempt_def
        removeDirectoryRecursive_def existsSync_def readdirSync_def andThen_def)

lemma clear_loop:
  assumes "distinct fs" "distinct (map fst es)" "set fs \<subseteq> fst ` set es"
  shows "forEach clearConversationFolder fs (Some (Dir es))
     = (None, Some (Dir (filter (\<lambda>e. \<not> (fst e \<in> set fs \<and> startsWith (fst e) ''chat_''
                                           \<and> (\<exists>cs. snd e = Dir cs))) es)))"
  using assms
proof (induction fs arbitrary: es)
  case Nil
  then show ?case by simp
next
  case (Cons f fs)
  from Cons.prems obtain n where n: "(f, n) \<in> set es" by auto
  with Cons.prems have mo: "map_of es f = Some n" by simp
  have uniq: "\<And>e. e \<in> set es \<Longrightarrow> fst e = f \<Longrightarrow> snd e = n"
    using Cons.prems(2) n by (metis eq_key_imp_eq_value prod.collapse)
  show ?case
  proof (cases "(\<exists>cs. n = Dir cs) \<and> startsWith f ''chat_''")
    case True
    let ?es = "deleteEntry f es"
    have 1: "distinct (map fst ?es)"
      using Cons.prems(2) by (simp add: deleteEntry_def distinct_map_filter)
    have 2: "set fs \<subseteq> fst ` set ?es"
      using Cons.prems by (force simp: deleteEntry_def)
    have 3: "distinct fs" using Cons.prems by simp
    have "forEach clearConversationFolder (f # fs) (Some (Dir es))
          = forEach clearConversationFolder fs (Some (Dir ?es))"
      using True by (simp add: clear_step [OF mo])
    also note Cons.IH [OF 3 1 2]
    also have "filter (\<lambda>e. \<not> (fst e \<in> set fs \<and> startsWith (fst e) ''chat_'' \<and> (\<exists>cs. snd e = Dir cs))) ?es
       = filter (\<lambda>e. \<not> (fst e \<in> set (f # fs) \<and> startsWith (fst e) ''chat_'' \<and> (\<exists>cs. snd e = Dir cs))) es"
      unfolding deleteEntry_def filter_filter
      by (rule filter_cong) (use True uniq in auto)
    finally show ?thesis .
  next
    case False
    have 1: "distinct (map fst es)" using Cons.prems by simp
    have 2: "set fs \<subseteq> fst ` set es" using Cons.prems by simp
    have 3: "distinct fs" using Cons.prems by simp
    have "forEach clearConversationFolder (f # fs) (Some (Dir es))
          = forEach clearConversationFolder fs (Some (Dir es))"
      using False by (auto simp: clear_step [OF mo])
    also note Cons.IH [OF 3 1 2]
    also have "filter (\<lambda>e. \<not> (fst e \<in> set fs \<and> startsWith (fst e) ''chat_'' \<and> (\<exists>cs. snd e = Dir cs))) es
       = filter (\<lambda>e. \<not> (fst e \<in> set (f # fs) \<and> startsWith (fst e) ''chat_'' \<and> (\<exists>cs. snd e = Dir cs))) es"
      by (rule filter_cong) (use False uniq in auto)
    finally show ?thesis .
  qed
qed

text \<open>
  Saving a conversation into a storage with no entry of its name creates its directory
  with an empty artifacts directory, the body and the metadata made from an empty
  record.
\<close>

lemma updateMetadata_object:
  "\<exists>kvs'. updateMetadata P c now (JObj kvs) = Inr (JObj kvs')"
  by (auto simp: updateMetadata_def standardFields_def dataknotCommand_def andThen_def Let_def
      split: option.splits)

lemma save_step:
  assumes "conversationDir (cid c) \<notin> fst ` set es"
    and "updateMetadata P c now (JObj []) = Inr m"
  shows "saveConversation P now c (Some (Dir es))
     = (None, Some (Dir (es @ [(conversationDir (cid c),
           Dir [(''artifacts'', Dir []),
                (''conversation.json'', File (Json (conversation_json c))),
                (''metadata.json'', File (Json m))])])))"
proof -
  let ?d = "conversationDir (cid c)"
  have none: "map_of es ?d = None"
    using assms(1) by (simp add: map_of_eq_None_iff)
  let ?s1 = "Some (Dir (setEntry ?d (Dir []) es))"
  let ?s2 = "Some (Dir (setEntry ?d (Dir [(''artifacts'', Dir [])]) es))"
  let ?s3 = "Some (Dir (setEntry ?d (Dir [(''artifacts'', Dir []),
                (''conversation.json'', File (Json (conversation_json c)))]) es))"
  let ?s4 = "Some (Dir (setEntry ?d (Dir [(''artifacts'', Dir []),
                (''conversation.json'', File (Json (conversation_json c))),
                (''metadata.json'', File (Json m))]) es))"
  have 1: "\<not> existsSync (Some (Dir es)) [?d]" "mkdirSync (Some (Dir es)) [?d] = Inr ?s1"
    using none by (simp_all add: existsSync_def mkdirSync_one)
  have 2: "\<not> existsSync ?s1 [?d, ''artifacts'']" "mkdirSync ?s1 [?d, ''artifacts''] = Inr ?s2"
    by (simp_all add: existsSync_def mkdirSync_two)
  have 3: "writeFileSync ?s2 [?d, ''conversation.json''] (Json (conversation_json c)) = Inr ?s3"
    by (simp add: writeFileSync_two)
  have 4: "readExistingMetadata P ?s3 [?d, ''metadata.json''] = JObj []"
    by (simp add: readExistingMetadata_def existsSync_def)
  have 5: "writeFileSync ?s3 [?d, ''metadata.json''] (Json m) = Inr ?s4"
    by (simp add: writeFileSync_two)
  have "saveConversation P now c (Some (Dir es)) = (None, ?s4)"
    unfolding saveConversation_def Let_def chatHistoryDir_def
    using 1 2 3 4 5 assms(2) by (simp add: attempt_def)
  then show ?thesis
    by (simp add: setEntry_fresh [OF assms(1)])
qed

lemma save_loop:
  assumes "\<forall>c. updateMetadata P c now (JObj []) = Inr (M c)"
    and "distinct (map (\<lambda>c. conversationDir (cid c)) L)"
    and "\<forall>c \<in> set L. conversationDir (cid c) \<notin> fst ` set es"
  shows "forEach (saveConversation P now) L (Some (Dir es))
       = (None, Some (Dir (es @ map (\<lambda>c. (conversationDir (cid c),
             Dir [(''artifacts'', Dir []),
                  (''conversation.json'', File (Json (conversation_json c))),
                  (''metadata.json'', File (Json (M c)))])) L)))"
  using assms(2,3)
proof (induction L arbitrary: es)
  case Nil
  then show ?case by simp
next
  case (Cons c L)
  let ?e = "(conversationDir (cid c),
           Dir [(''artifacts'', Dir []),
                (''conversation.json'', File (Json (conversation_json c))),
                (''metadata.json'', File (Json (M c)))])"
  have fresh: "conversationDir (cid c) \<notin> fst ` set es" using Cons.prems by simp
  have m: "updateMetadata P c now (JObj []) = Inr (M c)" using assms(1) by simp
  have step: "saveConversation P now c (Some (Dir es)) = (None, Some (Dir (es @ [?e])))"
    by (rule save_step [OF fresh m])
  have 1: "distinct (map (\<lambda>c. conversationDir (cid c)) L)" using Cons.prems by simp
  have 2: "\<forall>c' \<in> set L. conversationDir (cid c') \<notin> fst ` set (es @ [?e])"
    using Cons.prems by (auto simp: image_iff)
  show ?case
    using Cons.IH [OF 1 2] by (simp add: step)
qed

text \<open>The sort puts conversations in the order of their identifiers, the greatest first.\<close>

lemma filterE_total:
  "(\<And>x. x \<in> set xs \<Longrightarrow> f x = Inr (g x)) \<Longrightarrow> filterE f xs = Inr (filter g xs)"
  by (induction xs) (auto simp: andThen_def)

lemma compareIds_conversation:
  "compareIds (conversation_json x) (conversation_json y) = Inr (int (cid y) - int (cid x))"
  by (simp add: compareIds_def conversation_json_def andThen_def)

lemma insertSorted_conversation:
  assumes "sorted_wrt (\<lambda>a b. cid b \<le> cid a) ys"
  shows "\<exists>zs. insertSorted (conversation_json x) (map conversation_json ys)
               = Inr (map conversation_json zs)
           \<and> mset zs = add_mset x (mset ys)
           \<and> sorted_wrt (\<lambda>a b. cid b \<le> cid a) zs"
  using assms
proof (induction ys)
  case Nil
  show ?case by (rule exI [of _ "[x]"]) simp
next
  case (Cons y ys)
  show ?case
  proof (cases "cid y \<le> cid x")
    case True
    have "sorted_wrt (\<lambda>a b. cid b \<le> cid a) (x # y # ys)"
      using Cons.prems True by (auto intro: order_trans)
    then show ?thesis
      using True
      by (intro exI [of _ "x # y # ys"]) (simp add: compareIds_conversation andThen_def)
  next
    case False
    from Cons obtain zs where zs:
      "insertSorted (conversation_json x) (map conversation_json ys) = Inr (map conversation_json zs)"
      "mset zs = add_mset x (mset ys)" "sorted_wrt (\<lambda>a b. cid b \<le> cid a) zs"
      by auto
    have "set zs = insert x (set ys)"
      using zs(2) by (metis set_mset_add_mset_insert set_mset_mset)
    then have "sorted_wrt (\<lambda>a b. cid b \<le> cid a) (y # zs)"
      using zs(3) Cons.prems False by auto
    then show ?thesis
      using False zs
      by (intro exI [of _ "y # zs"]) (simp add: compareIds_conversation andThen_def)
  qed
qed

lemma sortSorted_conversation:
  "\<exists>zs. sortSorted (map conversation_json L) = Inr (map conversation_json zs)
      \<and> mset zs = mset L \<and> sorted_wrt (\<lambda>a b. cid b \<le> cid a) zs"
proof (induction L)
  case Nil
  show ?case by (rule exI [of _ "[]"]) simp
next
  case (Cons x L)
  then obtain ys where ys: "sortSorted (map conversation_json L) = Inr (map conversation_json ys)"
    "mset ys = mset L" "sorted_wrt (\<lambda>a b. cid b \<le> cid a) ys" by blast
  from insertSorted_conversation [OF ys(3), of x] obtain zs where
    "insertSorted (conversation_json x) (map conversation_json ys) = Inr (map conversation_json zs)"
    "mset zs = add_mset x (mset ys)" "sorted_wrt (\<lambda>a b. cid b \<le> cid a) zs" by blast
  then show ?case
    using ys by (intro exI [of _ zs]) (simp add: andThen_def)
qed

lemma sortConversations_conversation:
  "\<exists>zs. sortConversations (map conversation_json L) = Inr (map conversation_json zs)
      \<and> mset zs = mset L \<and> sorted_wrt (\<lambda>a b. cid b \<le> cid a) zs"
proof -
  have "JNull \<notin> set (map conversation_json L)"
    by (auto simp: conversation_json_def)
  then show ?thesis
    using sortSorted_conversation [of L] by (simp add: sortConversations_def)
qed

lemma strict_of_distinct:
  "sorted_wrt (\<lambda>a b. cid b \<le> cid a) zs \<Longrightarrow> distinct (map cid zs)
   \<Longrightarrow> sorted_wrt (\<lambda>a b. cid b < cid a) zs"
proof (induction zs)
  case Nil
  then show ?case by simp
next
  case (Cons a zs)
  have "\<forall>x \<in> set zs. cid x < cid a"
  proof
    fix x assume x: "x \<in> set zs"
    then have "cid x \<le> cid a" using Cons.prems(1) by simp
    moreover have "cid x \<noteq> cid a"
    proof
      assume "cid x = cid a"
      then have "cid a \<in> cid ` set zs" using x by (metis imageI)
      then show False using Cons.prems(2) by simp
    qed
    ultimately show "cid x < cid a" by simp
  qed
  then show ?case using Cons by simp
qed

text \<open>
  Loading a storage whose conversation directories are those of a list of conversations
  with distinct directory names.
\<close>

lemma concat_map_single:
  "(\<And>x. x \<in> set xs \<Longrightarrow> f (g x) = [h x]) \<Longrightarrow> concat (map f (map g xs)) = map h xs"
  by (induction xs) auto

lemma load_after:
  fixes E :: "conversation \<Rightarrow> (string \<times> node) list"
  assumes conv: "\<forall>c. map_of (E c) ''conversation.json'' = Some (File (Json (conversation_json c)))"
    and dist: "distinct (map (\<lambda>c. conversationDir (cid c)) L)"
    and fresh: "\<forall>c \<in> set L. conversationDir (cid c) \<notin> fst ` set es"
    and nochat: "\<forall>e \<in> set es. \<not> (startsWith (fst e) ''chat_'' \<and> (\<exists>cs. snd e = Dir cs))"
    and des: "distinct (map fst es)"
  shows "loadChatHistory P (Some (Dir (es @ map (\<lambda>c. (conversationDir (cid c), Dir (E c))) L)))
     = (case sortConversations (map conversation_json L) of
          Inl e \<Rightarrow> ([], Some (Dir (es @ map (\<lambda>c. (conversationDir (cid c), Dir (E c))) L)))
        | Inr r \<Rightarrow> (r, Some (Dir (es @ map (\<lambda>c. (conversationDir (cid c), Dir (E c))) L))))"
proof -
  let ?new = "map (\<lambda>c. (conversationDir (cid c), Dir (E c))) L"
  let ?s = "Some (Dir (es @ ?new))"
  let ?g = "\<lambda>file. file \<in> (\<lambda>c. conversationDir (cid c)) ` set L"
  have dnew: "distinct (map fst ?new)" using dist by (simp add: comp_def)
  have fr: "\<And>c e. c \<in> set L \<Longrightarrow> e \<in> set es \<Longrightarrow> conversationDir (cid c) \<noteq> fst e"
  proof
    fix c e assume c: "c \<in> set L" and e: "e \<in> set es" and eq: "conversationDir (cid c) = fst e"
    from e have "fst e \<in> fst ` set es" by (rule imageI)
    with c eq fresh show False by metis
  qed
  have new: "\<And>c. c \<in> set L \<Longrightarrow> map_of (es @ ?new) (conversationDir (cid c)) = Some (Dir (E c))"
  proof -
    fix c assume c: "c \<in> set L"
    then have "map_of es (conversationDir (cid c)) = None"
      using fresh by (simp add: map_of_eq_None_iff)
    moreover have "map_of ?new (conversationDir (cid c)) = Some (Dir (E c))"
      using dnew c by (subst map_of_eq_Some_iff) auto
    ultimately show "map_of (es @ ?new) (conversationDir (cid c)) = Some (Dir (E c))"
      by (simp add: map_add_def)
  qed
  have old: "\<And>e. e \<in> set es \<Longrightarrow> map_of (es @ ?new) (fst e) = Some (snd e)"
  proof -
    fix e assume "e \<in> set es"
    then have "map_of es (fst e) = Some (snd e)" using des by simp
    then show "map_of (es @ ?new) (fst e) = Some (snd e)" by (simp add: map_add_def)
  qed
  have pred: "\<And>f. f \<in> set (map fst es @ map fst ?new) \<Longrightarrow>
     andThen (isDirectory ?s (chatHistoryDir @ [f])) (\<lambda>d. Inr (d \<and> startsWith f ''chat_''))
     = Inr (?g f)"
  proof -
    fix f assume "f \<in> set (map fst es @ map fst ?new)"
    then consider e where "e \<in> set es" "f = fst e" | c where "c \<in> set L" "f = conversationDir (cid c)"
      by auto
    then show "andThen (isDirectory ?s (chatHistoryDir @ [f])) (\<lambda>d. Inr (d \<and> startsWith f ''chat_''))
     = Inr (?g f)"
    proof cases
      case 1
      have "\<not> ?g f"
      proof
        assume "?g f"
        then obtain c where "c \<in> set L" "f = conversationDir (cid c)" by auto
        with fr [of c e] 1 show False by simp
      qed
      moreover have "\<not> (startsWith f ''chat_'' \<and> (\<exists>cs. snd e = Dir cs))"
        using 1 nochat by auto
      ultimately show ?thesis
        using old [OF 1(1)] 1(2)
        by (cases "snd e") (auto simp: isDirectory_def chatHistoryDir_def andThen_def)
    next
      case 2
      then show ?thesis
        using new [OF 2(1)]
        by (auto simp: isDirectory_def chatHistoryDir_def andThen_def conversationDir_chat)
    qed
  qed
  have "\<forall>n \<in> set (map fst es). \<not> ?g n"
  proof (intro ballI notI)
    fix n assume "n \<in> set (map fst es)" and "?g n"
    then obtain e c where "e \<in> set es" "n = fst e" "c \<in> set L" "n = conversationDir (cid c)"
      by auto
    with fr [of c e] show False by simp
  qed
  then have f1: "filter ?g (map fst es) = []"
    by (simp add: filter_empty_conv)
  have f2: "filter ?g (map fst ?new) = map (\<lambda>c. conversationDir (cid c)) L"
    by (auto simp: comp_def filter_id_conv)
  have filt: "filterE (\<lambda>file. andThen (isDirectory ?s (chatHistoryDir @ [file]))
                                  (\<lambda>d. Inr (d \<and> startsWith file ''chat_'')))
                (map fst es @ map fst ?new)
           = Inr (map (\<lambda>c. conversationDir (cid c)) L)"
    using filterE_total [of "map fst es @ map fst ?new" _ ?g, OF pred] f1 f2
    by (simp del: map_map)
  have one: "\<And>c. c \<in> set L \<Longrightarrow> loadConversation P ?s (conversationDir (cid c)) = [conversation_json c]"
    using new conv
    by (simp add: loadConversation_def chatHistoryDir_def Let_def existsSync_def readFileSync_def
        andThen_def JSON_parse_def)
  have cat: "concat (map (loadConversation P ?s) (map (\<lambda>c. conversationDir (cid c)) L))
             = map conversation_json L"
    by (rule concat_map_single) (rule one)
  show ?thesis
    unfolding loadChatHistory_def
    using filt cat
    by (simp add: existsSync_def chatHistoryDir_def readdirSync_def andThen_def del: map_map
        split: sum.splits)
qed

text \<open>The storage after \<^verbatim>\<open>saveChatHistory\<close>.\<close>

lemma saveChatHistory_None:
  "saveChatHistory P now L None = snd (forEach (saveConversation P now) L (Some (Dir [])))"
  by (simp add: saveChatHistory_def existsSync_def chatHistoryDir_def mkdirSync_def readdirSync_def)

lemma saveChatHistory_Dir:
  assumes "distinct (map fst es)"
  shows "saveChatHistory P now L (Some (Dir es))
     = snd (forEach (saveConversation P now) L
         (Some (Dir (filter (\<lambda>e. \<not> (startsWith (fst e) ''chat_'' \<and> (\<exists>cs. snd e = Dir cs))) es))))"
proof -
  have "filter (\<lambda>e. \<not> (fst e \<in> set (map fst es) \<and> startsWith (fst e) ''chat_''
                         \<and> (\<exists>cs. snd e = Dir cs))) es
      = filter (\<lambda>e. \<not> (startsWith (fst e) ''chat_'' \<and> (\<exists>cs. snd e = Dir cs))) es"
    by (rule filter_cong) auto
  then show ?thesis
    using clear_loop [of "map fst es" es] assms
    by (simp add: saveChatHistory_def existsSync_def chatHistoryDir_def readdirSync_def)
qed

lemma saveChatHistory_result:
  assumes ids: "distinct (map cid L)"
    and root: "\<forall>d. s \<noteq> Some (File d)"
    and names: "\<forall>files. readdirSync s chatHistoryDir = Inr files \<longrightarrow> distinct files"
    and nofile: "\<forall>c \<in> set L. \<forall>d. lookup s [conversationDir (cid c)] \<noteq> Some (File d)"
    and meta: "\<forall>c. updateMetadata P c now (JObj []) = Inr (M c)"
  shows "\<exists>es. distinct (map fst es)
      \<and> (\<forall>e \<in> set es. \<not> (startsWith (fst e) ''chat_'' \<and> (\<exists>cs. snd e = Dir cs)))
      \<and> (\<forall>c \<in> set L. conversationDir (cid c) \<notin> fst ` set es)
      \<and> saveChatHistory P now L s
        = Some (Dir (es @ map (\<lambda>c. (conversationDir (cid c),
             Dir [(''artifacts'', Dir []),
                  (''conversation.json'', File (Json (conversation_json c))),
                  (''metadata.json'', File (Json (M c)))])) L))"
proof -
  have dirs: "distinct (map (\<lambda>c. conversationDir (cid c)) L)"
    using ids by (simp add: distinct_map inj_on_def conversationDir_inj comp_def)
  show ?thesis
  proof (cases s)
    case None
    have "saveChatHistory P now L s
        = Some (Dir ([] @ map (\<lambda>c. (conversationDir (cid c),
             Dir [(''artifacts'', Dir []),
                  (''conversation.json'', File (Json (conversation_json c))),
                  (''metadata.json'', File (Json (M c)))])) L))"
      unfolding None saveChatHistory_None
      by (subst save_loop [OF meta dirs]) simp_all
    then show ?thesis by (intro exI [of _ "[]"]) simp
  next
    case (Some r)
    with root obtain es0 where s: "s = Some (Dir es0)" by (cases r) auto
    have d0: "distinct (map fst es0)"
      using names by (simp add: s readdirSync_def chatHistoryDir_def)
    let ?es = "filter (\<lambda>e. \<not> (startsWith (fst e) ''chat_'' \<and> (\<exists>cs. snd e = Dir cs))) es0"
    have d: "distinct (map fst ?es)" using d0 by (rule distinct_map_filter)
    have nochat: "\<forall>e \<in> set ?es. \<not> (startsWith (fst e) ''chat_'' \<and> (\<exists>cs. snd e = Dir cs))"
      by simp
    have fresh: "\<forall>c \<in> set L. conversationDir (cid c) \<notin> fst ` set ?es"
    proof (intro ballI notI)
      fix c assume c: "c \<in> set L" and "conversationDir (cid c) \<in> fst ` set ?es"
      then obtain n where n: "(conversationDir (cid c), n) \<in> set es0"
        and k: "\<not> (startsWith (conversationDir (cid c)) ''chat_'' \<and> (\<exists>cs. n = Dir cs))"
        by auto
      from n d0 have "map_of es0 (conversationDir (cid c)) = Some n" by simp
      moreover from k obtain x where "n = File x"
        by (cases n) (auto simp: conversationDir_chat)
      ultimately show False using nofile c by (simp add: s)
    qed
    have "saveChatHistory P now L s
        = Some (Dir (?es @ map (\<lambda>c. (conversationDir (cid c),
             Dir [(''artifacts'', Dir []),
                  (''conversation.json'', File (Json (conversation_json c))),
                  (''metadata.json'', File (Json (M c)))])) L))"
      unfolding s saveChatHistory_Dir [OF d0]
      by (subst save_loop [OF meta dirs fresh]) simp
    with d nochat fresh show ?thesis by blast
  qed
qed

lemmas save_eval = saveChatHistory_def saveConversation_def clearConversationFolder_def
  removeDirectoryRecursive_def readExistingMetadata_def updateMetadata_def standardFields_def
  dataknotCommand_def lastUserMessage_def Let_def chatHistoryDir_def existsSync_def
  isDirectory_def readdirSync_def readFileSync_def mkdirSync_def writeFileSync_def attempt_def
  andThen_def startsWith_def deleteEntry_def conversationDir_1 conversationDir_2
  conversationDir_Suc_0 conversation_json_def message_json_def JSON_parse_def

lemmas load_eval = loadChatHistory_def loadConversation_def sortConversations_def compareIds_def
  rejecting_def

text \<open>
  Claim C1, as the code has it.  Let the conversations of the list \<open>L\<close> have pairwise
  distinct identifiers, and let the storage root be absent or a directory that lists
  no name twice and holds no regular file under the directory name of a conversation
  of \<open>L\<close>.  Then loading, persisting \<open>L\<close> and loading again yields the bodies of the
  conversations of \<open>L\<close>, each once, in the order of their identifiers with the greatest
  first; and after persisting, the conversation directories of the storage root (the
  directories whose names begin with \<^verbatim>\<open>chat_\<close>) are exactly the directories of the
  conversations of \<open>L\<close>: none is left from before and none of \<open>L\<close> is missing.
\<close>

theorem saveChatHistory_roundtrip:
  assumes ids: "distinct (map cid L)"
    and root: "\<forall>d. s \<noteq> Some (File d)"
    and names: "\<forall>files. readdirSync s chatHistoryDir = Inr files \<longrightarrow> distinct files"
    and nofile: "\<forall>c \<in> set L. \<forall>d. lookup s [conversationDir (cid c)] \<noteq> Some (File d)"
  shows "(\<exists>L'. fst (loadChatHistory P (saveChatHistory P now L (snd (loadChatHistory P s))))
                = map conversation_json L'
             \<and> mset L' = mset L \<and> sorted_wrt (\<lambda>a b. cid b < cid a) L')
     \<and> (\<forall>name. (startsWith name ''chat_''
                 \<and> (\<exists>cs. lookup (saveChatHistory P now L (snd (loadChatHistory P s))) [name]
                           = Some (Dir cs)))
               = (name \<in> (\<lambda>c. conversationDir (cid c)) ` set L))"
proof -
  have "\<forall>c. \<exists>m. updateMetadata P c now (JObj []) = Inr m"
    using updateMetadata_object by blast
  then obtain M where meta: "\<forall>c. updateMetadata P c now (JObj []) = Inr (M c)"
    by metis
  let ?E = "\<lambda>c. [(''artifacts'', Dir []),
                  (''conversation.json'', File (Json (conversation_json c))),
                  (''metadata.json'', File (Json (M c)))]"
  let ?new = "map (\<lambda>c. (conversationDir (cid c), Dir (?E c))) L"
  from saveChatHistory_result [OF ids root names nofile meta]
  obtain es where des: "distinct (map fst es)"
    and nochat: "\<forall>e \<in> set es. \<not> (startsWith (fst e) ''chat_'' \<and> (\<exists>cs. snd e = Dir cs))"
    and fresh: "\<forall>c \<in> set L. conversationDir (cid c) \<notin> fst ` set es"
    and res: "saveChatHistory P now L s = Some (Dir (es @ ?new))"
    by blast
  have dirs: "distinct (map (\<lambda>c. conversationDir (cid c)) L)"
    using ids by (simp add: distinct_map inj_on_def conversationDir_inj comp_def)
  have conv: "\<forall>c. map_of (?E c) ''conversation.json'' = Some (File (Json (conversation_json c)))"
    by simp
  obtain zs where zs: "sortConversations (map conversation_json L) = Inr (map conversation_json zs)"
    "mset zs = mset L" "sorted_wrt (\<lambda>a b. cid b \<le> cid a) zs"
    using sortConversations_conversation by blast
  have "distinct (map cid zs)"
    using ids zs(2) by (metis distinct_map mset_eq_imp_distinct_iff mset_map)
  then have strict: "sorted_wrt (\<lambda>a b. cid b < cid a) zs"
    using zs(3) strict_of_distinct by blast
  have load: "fst (loadChatHistory P (Some (Dir (es @ ?new)))) = map conversation_json zs"
    by (subst load_after [OF conv dirs fresh nochat des]) (simp add: zs(1))
  have part1: "\<exists>L'. fst (loadChatHistory P (saveChatHistory P now L (snd (loadChatHistory P s))))
                = map conversation_json L'
             \<and> mset L' = mset L \<and> sorted_wrt (\<lambda>a b. cid b < cid a) L'"
    using load zs(2) strict by (auto simp: loadChatHistory_snd res)
  have part2: "(startsWith name ''chat_''
                 \<and> (\<exists>cs. lookup (saveChatHistory P now L (snd (loadChatHistory P s))) [name]
                           = Some (Dir cs)))
               = (name \<in> (\<lambda>c. conversationDir (cid c)) ` set L)" for name
  proof
    assume a: "startsWith name ''chat_''
                 \<and> (\<exists>cs. lookup (saveChatHistory P now L (snd (loadChatHistory P s))) [name]
                           = Some (Dir cs))"
    then obtain cs where cs0: "lookup (Some (Dir (es @ ?new))) [name] = Some (Dir cs)"
      unfolding loadChatHistory_snd res by blast
    then have cs: "map_of (es @ ?new) name = Some (Dir cs)"
      by (simp del: map_of_append)
    show "name \<in> (\<lambda>c. conversationDir (cid c)) ` set L"
    proof (cases "map_of ?new name")
      case None
      with cs have "map_of es name = Some (Dir cs)"
        by (auto simp: map_add_def split: option.splits)
      then have "(name, Dir cs) \<in> set es" by (rule map_of_SomeD)
      with nochat a show ?thesis by force
    next
      case (Some n)
      then have "(name, n) \<in> set ?new" by (rule map_of_SomeD)
      then show ?thesis by auto
    qed
  next
    assume "name \<in> (\<lambda>c. conversationDir (cid c)) ` set L"
    then obtain c where c: "c \<in> set L" "name = conversationDir (cid c)" by auto
    have "map_of es name = None"
      using fresh c by (simp add: map_of_eq_None_iff)
    moreover have "map_of ?new name = Some (Dir (?E c))"
      using dirs c by (subst map_of_eq_Some_iff) (auto simp: comp_def)
    ultimately have "map_of (es @ ?new) name = Some (Dir (?E c))"
      by (simp add: map_add_def)
    then show "startsWith name ''chat_''
                 \<and> (\<exists>cs. lookup (saveChatHistory P now L (snd (loadChatHistory P s))) [name]
                           = Some (Dir cs))"
      using c by (simp add: loadChatHistory_snd res conversationDir_chat)
  qed
  from part1 part2 show ?thesis by blast
qed

text \<open>
  The theorem at two conversations and a storage root that holds a conversation
  directory from before, which is removed, and a file, which is kept.
\<close>

theorem saveChatHistory_roundtrip_witness:
  "fst (loadChatHistory rejecting
      (saveChatHistory rejecting 5
         [\<lparr>cid = 1, title = ''first'', messages = []\<rparr>, \<lparr>cid = 2, title = ''second'', messages = []\<rparr>]
         (snd (loadChatHistory rejecting
            (Some (Dir [(''chat_9'', Dir [(''conversation.json'', File (Raw ''{''))]),
                        (''notes.txt'', File (Raw ''x''))]))))))
   = [conversation_json \<lparr>cid = 2, title = ''second'', messages = []\<rparr>,
      conversation_json \<lparr>cid = 1, title = ''first'', messages = []\<rparr>]
   \<and> readdirSync (saveChatHistory rejecting 5
         [\<lparr>cid = 1, title = ''first'', messages = []\<rparr>, \<lparr>cid = 2, title = ''second'', messages = []\<rparr>]
         (snd (loadChatHistory rejecting
            (Some (Dir [(''chat_9'', Dir [(''conversation.json'', File (Raw ''{''))]),
                        (''notes.txt'', File (Raw ''x''))]))))) chatHistoryDir
     = Inr [''notes.txt'', ''chat_1'', ''chat_2'']"
proof -
  let ?L = "[\<lparr>cid = 1, title = ''first'', messages = []\<rparr>, \<lparr>cid = 2, title = ''second'', messages = []\<rparr>]"
  let ?s = "Some (Dir [(''chat_9'', Dir [(''conversation.json'', File (Raw ''{''))]),
                        (''notes.txt'', File (Raw ''x''))])"
  have h1: "distinct (map cid ?L)" by simp
  have h2: "\<forall>d. ?s \<noteq> Some (File d)" by simp
  have h3: "\<forall>files. readdirSync ?s chatHistoryDir = Inr files \<longrightarrow> distinct files"
    by (simp add: readdirSync_def chatHistoryDir_def)
  have h4: "\<forall>c \<in> set ?L. \<forall>d. lookup ?s [conversationDir (cid c)] \<noteq> Some (File d)"
    by (simp add: conversationDir_1 conversationDir_2 conversationDir_Suc_0)
  show ?thesis
    using saveChatHistory_roundtrip [OF h1 h2 h3 h4, of rejecting 5]
    by (simp add: loadChatHistory_snd) (simp add: save_eval load_eval)
qed

text \<open>
  The claim as it is written fails: the list holds two conversations with the same
  identifier.  They share a directory, the second is written over the first, and
  loading yields one conversation where the list has two.
\<close>

theorem saveChatHistory_roundtrip_counterexample:
  "fst (loadChatHistory rejecting
      (saveChatHistory rejecting 5
         [\<lparr>cid = 1, title = ''first'', messages = []\<rparr>, \<lparr>cid = 1, title = ''second'', messages = []\<rparr>]
         (snd (loadChatHistory rejecting None))))
   = [conversation_json \<lparr>cid = 1, title = ''second'', messages = []\<rparr>]"
  by (simp add: loadChatHistory_snd) (simp add: save_eval load_eval)

subsection \<open>The metadata record of a persisted conversation\<close>

text \<open>
  Under the conditions of the round trip, the metadata record written for a conversation
  of the list is the one made from an empty record, whatever record the storage held
  for it before.
\<close>

lemma saveChatHistory_metadata_from_empty:
  assumes ids: "distinct (map cid L)"
    and root: "\<forall>d. s \<noteq> Some (File d)"
    and names: "\<forall>files. readdirSync s chatHistoryDir = Inr files \<longrightarrow> distinct files"
    and nofile: "\<forall>c \<in> set L. \<forall>d. lookup s [conversationDir (cid c)] \<noteq> Some (File d)"
    and c: "c \<in> set L"
  shows "\<exists>m. updateMetadata P c now (JObj []) = Inr m
     \<and> lookup (saveChatHistory P now L s) [conversationDir (cid c), ''metadata.json'']
       = Some (File (Json m))"
proof -
  have "\<forall>c. \<exists>m. updateMetadata P c now (JObj []) = Inr m"
    using updateMetadata_object by blast
  then obtain M where meta: "\<forall>c. updateMetadata P c now (JObj []) = Inr (M c)"
    by metis
  let ?E = "\<lambda>c. [(''artifacts'', Dir []),
                  (''conversation.json'', File (Json (conversation_json c))),
                  (''metadata.json'', File (Json (M c)))]"
  let ?new = "map (\<lambda>c. (conversationDir (cid c), Dir (?E c))) L"
  from saveChatHistory_result [OF ids root names nofile meta]
  obtain es where fresh: "\<forall>c \<in> set L. conversationDir (cid c) \<notin> fst ` set es"
    and res: "saveChatHistory P now L s = Some (Dir (es @ ?new))"
    by blast
  have dirs: "distinct (map (\<lambda>c. conversationDir (cid c)) L)"
    using ids by (simp add: distinct_map inj_on_def conversationDir_inj comp_def)
  have "map_of es (conversationDir (cid c)) = None"
    using fresh c by (simp add: map_of_eq_None_iff)
  moreover have "map_of ?new (conversationDir (cid c)) = Some (Dir (?E c))"
    using dirs c by (subst map_of_eq_Some_iff) (auto simp: comp_def)
  ultimately have "map_of (es @ ?new) (conversationDir (cid c)) = Some (Dir (?E c))"
    by (simp add: map_add_def)
  then have "lookup (saveChatHistory P now L s) [conversationDir (cid c), ''metadata.json'']
       = Some (File (Json (M c)))"
    unfolding res by (simp del: map_of_append)
  with meta show ?thesis by blast
qed

text \<open>
  Claim C2 fails on the code.  The conversation 1 has a metadata record with the field
  \<^verbatim>\<open>foo\<close>.  Persisting a list with this conversation removes its directory in the
  clearing loop, before the metadata is read, so the record that is written is made
  from an empty record: the field \<^verbatim>\<open>foo\<close> is gone.
\<close>

theorem saveChatHistory_drops_extra_field:
  "lookup
     (saveChatHistory P now [\<lparr>cid = 1, title = ''Soup'', messages = []\<rparr>]
        (Some (Dir [(''chat_1'',
           Dir [(''artifacts'', Dir []),
                (''conversation.json'',
                 File (Json (conversation_json \<lparr>cid = 1, title = ''Soup'', messages = []\<rparr>))),
                (''metadata.json'', File (Json (JObj
                    [(''id'', JNum 1), (''title'', JStr ''Soup''), (''created'', JNum 1),
                     (''lastModified'', JNum 3), (''messageCount'', JNum 0),
                     (''version'', JStr ''1.0''), (''projectType'', JStr ''chat''),
                     (''foo'', JStr ''bar'')])))])])))
     [''chat_1'', ''metadata.json'']
   = Some (File (Json (JObj
        [(''id'', JNum 1), (''title'', JStr ''Soup''), (''created'', JNum 1),
         (''lastModified'', JNum now), (''messageCount'', JNum 0), (''version'', JStr ''1.0''),
         (''projectType'', JStr ''chat'')])))"
  by (simp add: save_eval)

subsection \<open>The DataKnot command\<close>

text \<open>
  The message the command processing reads is the last message of the list whose role
  is \<^verbatim>\<open>user\<close>.
\<close>

lemma lastUserMessage_last:
  assumes "messages c = before @ msg # after"
    and "role msg = ''user''"
    and "\<forall>m \<in> set after. role m \<noteq> ''user''"
  shows "lastUserMessage c = Some msg"
proof -
  have "filter (\<lambda>m. role m = ''user'') after = []"
    using assms(3) by (simp add: filter_empty_conv)
  then have "filter (\<lambda>m. role m = ''user'') (messages c)
             = filter (\<lambda>m. role m = ''user'') before @ [msg]"
    using assms(1,2) by simp
  then show ?thesis
    by (cases "filter (\<lambda>m. role m = ''user'') before") (simp_all add: lastUserMessage_def)
qed

lemma lastUserMessage_none:
  assumes "\<forall>m \<in> set (messages c). role m \<noteq> ''user''"
  shows "lastUserMessage c = None"
proof -
  have "filter (\<lambda>m. role m = ''user'') (messages c) = []"
    using assms by (simp add: filter_empty_conv)
  then show ?thesis by (simp add: lastUserMessage_def)
qed

text \<open>
  The command processing by itself, on a metadata record that is an object with the
  properties \<open>kvs\<close>.  The standard fields give a record \<open>m1\<close> whose project type is the
  one of \<open>kvs\<close>, or \<^verbatim>\<open>chat\<close> when there is none.  If the last message of the user, trimmed
  and in lower case, is \<^verbatim>\<open>dataknot:\<close> followed by a rest that is \<^verbatim>\<open>start recipe\<close> when
  trimmed, the result has the project type \<^verbatim>\<open>recipe\<close> and the current time as its
  modification time.  If the rest is anything else, if the message does not begin with
  \<^verbatim>\<open>dataknot:\<close>, or if no message has the role \<^verbatim>\<open>user\<close>, the result is \<open>m1\<close>.
\<close>

lemma updateMetadata_command:
  "\<exists>m1. standardFields c now (JObj kvs) = Inr m1
     \<and> getProp m1 ''projectType''
         = Inr (if truthy (map_of kvs ''projectType'') then map_of kvs ''projectType''
                else Some (JStr ''chat''))
     \<and> (messages c = before @ msg # after \<and> role msg = ''user''
          \<and> (\<forall>m \<in> set after. role m \<noteq> ''user'')
          \<and> toLowerCase P (trim P (content msg)) = ''dataknot:'' @ rest
          \<and> trim P rest = ''start recipe''
         \<longrightarrow> (\<exists>m2. updateMetadata P c now (JObj kvs) = Inr m2
                \<and> getProp m2 ''projectType'' = Inr (Some (JStr ''recipe''))
                \<and> getProp m2 ''lastModified'' = Inr (Some (JNum now))))
     \<and> (messages c = before @ msg # after \<and> role msg = ''user''
          \<and> (\<forall>m \<in> set after. role m \<noteq> ''user'')
          \<and> toLowerCase P (trim P (content msg)) = ''dataknot:'' @ rest
          \<and> trim P rest \<noteq> ''start recipe''
         \<longrightarrow> updateMetadata P c now (JObj kvs) = Inr m1)
     \<and> (messages c = before @ msg # after \<and> role msg = ''user''
          \<and> (\<forall>m \<in> set after. role m \<noteq> ''user'')
          \<and> \<not> startsWith (toLowerCase P (trim P (content msg))) ''dataknot:''
         \<longrightarrow> updateMetadata P c now (JObj kvs) = Inr m1)
     \<and> ((\<forall>m \<in> set (messages c). role m \<noteq> ''user'')
         \<longrightarrow> updateMetadata P c now (JObj kvs) = Inr m1)"
proof -
  have a: "lastUserMessage c = Some msg"
    if "messages c = before @ msg # after" "role msg = ''user''"
       "\<forall>m \<in> set after. role m \<noteq> ''user''"
    using that by (rule lastUserMessage_last)
  have b: "lastUserMessage c = None" if "\<forall>m \<in> set (messages c). role m \<noteq> ''user''"
    using that by (rule lastUserMessage_none)
  show ?thesis
    using a b
    by (auto simp: standardFields_def updateMetadata_def dataknotCommand_def andThen_def Let_def
        startsWith_def)
qed

text \<open>
  Claim C4 fails on the code.  The conversation 1 is persisted three times, each time
  from a storage that holds its metadata record, on any platform that trims and lowers
  ASCII text as said above (the messages are ASCII text).  With a last user message that is the
  command \<^verbatim>\<open>start recipe\<close> in mixed case with white space around it, the record written
  has the project type \<^verbatim>\<open>recipe\<close> and the current time as its modification time, as the
  claim says.  With a last user message \<^verbatim>\<open>dataknot: frobnicate\<close>, and with a last user
  message \<^verbatim>\<open>thanks\<close>, a stored project type \<^verbatim>\<open>recipe\<close> is written back as \<^verbatim>\<open>chat\<close>: the
  clearing loop has removed the record before it is read, so the project type is set
  anew from an empty record, where the claim has it unchanged.
\<close>

theorem saveChatHistory_resets_projectType:
  "lookup
     (saveChatHistory (P\<lparr>trim := asciiTrim, toLowerCase := asciiLowerCase\<rparr>) now
        [\<lparr>cid = 1, title = ''Soup'', messages =
            [\<lparr>role = ''user'', content = ''  DataKnot:  Start Recipe ''\<rparr>]\<rparr>]
        (Some (Dir [(''chat_1'',
           Dir [(''artifacts'', Dir []),
                (''conversation.json'', File (Json (JObj [(''id'', JNum 1)]))),
                (''metadata.json'', File (Json (JObj
                    [(''id'', JNum 1), (''title'', JStr ''Soup''), (''created'', JNum 1),
                     (''lastModified'', JNum 3), (''messageCount'', JNum 0),
                     (''version'', JStr ''1.0''), (''projectType'', JStr ''chat'')])))])])))
     [''chat_1'', ''metadata.json'']
   = Some (File (Json (JObj
        [(''id'', JNum 1), (''title'', JStr ''Soup''), (''created'', JNum 1),
         (''lastModified'', JNum now), (''messageCount'', JNum 1), (''version'', JStr ''1.0''),
         (''projectType'', JStr ''recipe'')])))
   \<and> lookup
     (saveChatHistory (P\<lparr>trim := asciiTrim, toLowerCase := asciiLowerCase\<rparr>) now
        [\<lparr>cid = 1, title = ''Soup'', messages =
            [\<lparr>role = ''user'', content = ''dataknot: start recipe''\<rparr>,
             \<lparr>role = ''assistant'', content = ''ok''\<rparr>,
             \<lparr>role = ''user'', content = ''dataknot: frobnicate''\<rparr>]\<rparr>]
        (Some (Dir [(''chat_1'',
           Dir [(''artifacts'', Dir []),
                (''conversation.json'', File (Json (JObj [(''id'', JNum 1)]))),
                (''metadata.json'', File (Json (JObj
                    [(''id'', JNum 1), (''title'', JStr ''Soup''), (''created'', JNum 1),
                     (''lastModified'', JNum 3), (''messageCount'', JNum 2),
                     (''version'', JStr ''1.0''), (''projectType'', JStr ''recipe'')])))])])))
     [''chat_1'', ''metadata.json'']
   = Some (File (Json (JObj
        [(''id'', JNum 1), (''title'', JStr ''Soup''), (''created'', JNum 1),
         (''lastModified'', JNum now), (''messageCount'', JNum 3), (''version'', JStr ''1.0''),
         (''projectType'', JStr ''chat'')])))
   \<and> lookup
     (saveChatHistory (P\<lparr>trim := asciiTrim, toLowerCase := asciiLowerCase\<rparr>) now
        [\<lparr>cid = 1, title = ''Soup'', messages =
            [\<lparr>role = ''user'', content = ''dataknot: start recipe''\<rparr>,
             \<lparr>role = ''assistant'', content = ''ok''\<rparr>,
             \<lparr>role = ''user'', content = ''thanks''\<rparr>]\<rparr>]
        (Some (Dir [(''chat_1'',
           Dir [(''artifacts'', Dir []),
                (''conversation.json'', File (Json (JObj [(''id'', JNum 1)]))),
                (''metadata.json'', File (Json (JObj
                    [(''id'', JNum 1), (''title'', JStr ''Soup''), (''created'', JNum 1),
                     (''lastModified'', JNum 3), (''messageCount'', JNum 2),
                     (''version'', JStr ''1.0''), (''projectType'', JStr ''recipe'')])))])])))
     [''chat_1'', ''metadata.json'']
   = Some (File (Json (JObj
        [(''id'', JNum 1), (''title'', JStr ''Soup''), (''created'', JNum 1),
         (''lastModified'', JNum now), (''messageCount'', JNum 3), (''version'', JStr ''1.0''),
         (''projectType'', JStr ''chat'')])))"
  by (simp add: save_eval asciiTrim_def asciiLowerCase_def asciiWhiteSpace_def
      asciiLowerChar_def)

subsection \<open>The project types after initialization\<close>

lemmas init_eval = initChatHistory_def createArtifactsDirectories_def
  createArtifactsDirectory_def initializeDefaultProjectTypes_def
  initializeDefaultProjectType_def backfillProjectType_def loadChatHistory_def Let_def
  chatHistoryDir_def existsSync_def isDirectory_def readdirSync_def readFileSync_def
  mkdirSync_def writeFileSync_def attempt_def andThen_def startsWith_def JSON_parse_def

text \<open>
  One round of the loop of \<^verbatim>\<open>initializeDefaultProjectTypes\<close> keeps every entry of the
  storage root, changes the directory it is called for and no other, and leaves a
  metadata record with a project type in that directory, if the record is an object.
\<close>

lemma init_step_fst:
  "lookup s [f] \<noteq> None \<Longrightarrow> fst (initializeDefaultProjectType P now f s) = None"
  by (auto simp: initializeDefaultProjectType_def isDirectory_def chatHistoryDir_def Let_def
      split: option.splits node.splits)

lemma init_step_frame:
  "d \<noteq> f \<Longrightarrow> lookup (snd (initializeDefaultProjectType P now f s)) [d] = lookup s [d]"
  apply (cases s)
   apply (simp add: initializeDefaultProjectType_def isDirectory_def chatHistoryDir_def)
  subgoal for r
    apply (cases r)
     apply (simp add: initializeDefaultProjectType_def isDirectory_def chatHistoryDir_def)
    apply (auto simp: initializeDefaultProjectType_def isDirectory_def chatHistoryDir_def Let_def
        backfillProjectType_def andThen_def writeFileSync_two
        split: option.splits node.splits sum.splits)
    done
  done

lemma init_step_exists:
  "(lookup (snd (initializeDefaultProjectType P now f s)) [d] = None) = (lookup s [d] = None)"
  apply (cases s)
   apply (simp add: initializeDefaultProjectType_def isDirectory_def chatHistoryDir_def)
  subgoal for r
    apply (cases r)
     apply (simp add: initializeDefaultProjectType_def isDirectory_def chatHistoryDir_def)
    apply (auto simp: initializeDefaultProjectType_def isDirectory_def chatHistoryDir_def Let_def
        backfillProjectType_def andThen_def writeFileSync_two
        split: option.splits node.splits sum.splits if_splits)
    done
  done

lemma init_step_good:
  assumes "lookup (snd (initializeDefaultProjectType P now f s)) [f] = Some (Dir cs')"
    and "startsWith f ''chat_''"
    and "map_of cs' ''metadata.json'' = Some (File data')"
    and "JSON_parse P data' = Inr (JObj kvs')"
  shows "truthy (map_of kvs' ''projectType'')"
proof -
  obtain es where s: "s = Some (Dir es)"
    using assms(1)
    by (cases s; cases "the s")
       (auto simp: initializeDefaultProjectType_def isDirectory_def chatHistoryDir_def)
  show ?thesis
    using assms unfolding s
    by (auto simp: initializeDefaultProjectType_def isDirectory_def chatHistoryDir_def Let_def
        backfillProjectType_def andThen_def writeFileSync_two existsSync_def readFileSync_def
        JSON_parse_def
        split: option.splits node.splits sum.splits if_splits dest!: setProp_result)
qed

lemma init_loop:
  assumes "\<forall>f \<in> set files. lookup s [f] \<noteq> None"
  shows "fst (forEach (initializeDefaultProjectType P now) files s) = None
     \<and> (\<forall>d. d \<notin> set files \<longrightarrow>
            lookup (snd (forEach (initializeDefaultProjectType P now) files s)) [d] = lookup s [d])
     \<and> (\<forall>d cs data kvs. d \<in> set files
            \<and> lookup (snd (forEach (initializeDefaultProjectType P now) files s)) [d] = Some (Dir cs)
            \<and> startsWith d ''chat_''
            \<and> map_of cs ''metadata.json'' = Some (File data)
            \<and> JSON_parse P data = Inr (JObj kvs)
          \<longrightarrow> truthy (map_of kvs ''projectType''))"
  using assms
proof (induction files arbitrary: s)
  case Nil
  then show ?case by simp
next
  case (Cons f fs)
  let ?step = "initializeDefaultProjectType P now"
  obtain s1 where st: "?step f s = (None, s1)"
    using init_step_fst [of s f P now] Cons.prems by (cases "?step f s") auto
  have s1: "s1 = snd (?step f s)" using st by simp
  have ex: "\<forall>g \<in> set fs. lookup s1 [g] \<noteq> None"
    using Cons.prems init_step_exists [of P now f s] unfolding s1 by auto
  note IH = Cons.IH [OF ex]
  have run: "forEach ?step (f # fs) s = forEach ?step fs s1"
    using st by simp
  show ?case
  proof (intro conjI allI impI)
    show "fst (forEach ?step (f # fs) s) = None"
      using IH run by simp
  next
    fix d assume "d \<notin> set (f # fs)"
    then show "lookup (snd (forEach ?step (f # fs) s)) [d] = lookup s [d]"
      using IH run init_step_frame [of d f P now s] s1 by auto
  next
    fix d cs data kvs
    assume a: "d \<in> set (f # fs)
            \<and> lookup (snd (forEach ?step (f # fs) s)) [d] = Some (Dir cs)
            \<and> startsWith d ''chat_''
            \<and> map_of cs ''metadata.json'' = Some (File data)
            \<and> JSON_parse P data = Inr (JObj kvs)"
    show "truthy (map_of kvs ''projectType'')"
    proof (cases "d \<in> set fs")
      case True
      then show ?thesis using IH a run by auto
    next
      case False
      then have "d = f" using a by auto
      moreover have "lookup (snd (forEach ?step fs s1)) [f] = lookup s1 [f]"
        using IH False \<open>d = f\<close> by auto
      ultimately show ?thesis
        using a run init_step_good [of P now f s cs data kvs] s1 by auto
    qed
  qed
qed

lemma initializeDefaultProjectTypes_good:
  assumes "lookup (initializeDefaultProjectTypes P now s) [d] = Some (Dir cs)"
    and "startsWith d ''chat_''"
    and "map_of cs ''metadata.json'' = Some (File data)"
    and "JSON_parse P data = Inr (JObj kvs)"
  shows "truthy (map_of kvs ''projectType'')"
proof -
  obtain es where s: "s = Some (Dir es)"
    using assms(1)
    by (cases s; cases "the s")
       (auto simp: initializeDefaultProjectTypes_def chatHistoryDir_def existsSync_def
          readdirSync_def)
  let ?files = "map fst es"
  have r: "initializeDefaultProjectTypes P now s
           = snd (forEach (initializeDefaultProjectType P now) ?files s)"
    by (simp add: s initializeDefaultProjectTypes_def chatHistoryDir_def existsSync_def
        readdirSync_def)
  have ex: "\<forall>f \<in> set ?files. lookup s [f] \<noteq> None"
    by (auto simp: s map_of_eq_None_iff)
  note L = init_loop [OF ex, of P now]
  show ?thesis
  proof (cases "d \<in> set ?files")
    case True
    then show ?thesis using L assms unfolding r by blast
  next
    case False
    then have "lookup (initializeDefaultProjectTypes P now s) [d] = lookup s [d]"
      using L unfolding r by blast
    also have "\<dots> = None" using False by (simp add: s map_of_eq_None_iff)
    finally show ?thesis using assms(1) by simp
  qed
qed

text \<open>
  The loop of \<^verbatim>\<open>createArtifactsDirectories\<close> changes no metadata record, and the loop of
  \<^verbatim>\<open>initializeDefaultProjectTypes\<close> rewrites a record that has no project type once.
\<close>

lemma lookup_Cons: "lookup s (d # q) = lookup (lookup s [d]) q"
  by (cases s; cases "the s") auto

lemma forEach_preserves:
  assumes "\<And>x t. x \<in> X \<Longrightarrow> Q t \<Longrightarrow> fst (f x t) = None \<and> Q (snd (f x t))"
    and "set xs \<subseteq> X" and "Q s"
  shows "fst (forEach f xs s) = None \<and> Q (snd (forEach f xs s))"
  using assms(2,3)
proof (induction xs arbitrary: s)
  case Nil
  then show ?case by simp
next
  case (Cons x xs)
  then have "fst (f x s) = None" "Q (snd (f x s))"
    using assms(1) [of x s] by auto
  then show ?case
    using Cons by (cases "f x s") auto
qed

lemma create_step_fst:
  "lookup s [f] \<noteq> None \<Longrightarrow> fst (createArtifactsDirectory f s) = None"
  apply (cases s)
   apply simp
  subgoal for r
    apply (cases r)
     apply simp
    apply (auto simp: createArtifactsDirectory_def isDirectory_def chatHistoryDir_def Let_def
        attempt_def existsSync_def mkdirSync_def
        split: option.splits node.splits sum.splits)
    done
  done

lemma create_step_exists:
  "(lookup (snd (createArtifactsDirectory f s)) [d] = None) = (lookup s [d] = None)"
  apply (cases s)
   apply (simp add: createArtifactsDirectory_def isDirectory_def chatHistoryDir_def)
  subgoal for r
    apply (cases r)
     apply (simp add: createArtifactsDirectory_def isDirectory_def chatHistoryDir_def)
    apply (auto simp: createArtifactsDirectory_def isDirectory_def chatHistoryDir_def Let_def
        attempt_def existsSync_def mkdirSync_def
        split: option.splits node.splits sum.splits if_splits)
    done
  done

lemma create_step_metadata:
  "lookup (snd (createArtifactsDirectory f s)) [d, ''metadata.json''] = lookup s [d, ''metadata.json'']"
  apply (cases s)
   apply (simp add: createArtifactsDirectory_def isDirectory_def chatHistoryDir_def)
  subgoal for r
    apply (cases r)
     apply (simp add: createArtifactsDirectory_def isDirectory_def chatHistoryDir_def)
    apply (auto simp: createArtifactsDirectory_def isDirectory_def chatHistoryDir_def Let_def
        attempt_def existsSync_def mkdirSync_def
        split: option.splits node.splits sum.splits if_splits)
    done
  done

lemma createArtifactsDirectories_metadata:
  "lookup (createArtifactsDirectories s) [d, ''metadata.json''] = lookup s [d, ''metadata.json'']"
proof (cases s)
  case None
  then show ?thesis by (simp add: createArtifactsDirectories_def existsSync_def chatHistoryDir_def)
next
  case (Some r)
  show ?thesis
  proof (cases r)
    case (File x)
    then show ?thesis
      by (simp add: Some createArtifactsDirectories_def existsSync_def chatHistoryDir_def
          readdirSync_def)
  next
    case (Dir es)
    let ?Q = "\<lambda>t. (\<forall>f \<in> set (map fst es). lookup t [f] \<noteq> None)
                \<and> (\<forall>d. lookup t [d, ''metadata.json''] = lookup s [d, ''metadata.json''])"
    have q: "?Q s" by (auto simp: Some Dir map_of_eq_None_iff)
    have step: "\<And>x t. x \<in> set (map fst es) \<Longrightarrow> ?Q t \<Longrightarrow>
        fst (createArtifactsDirectory x t) = None \<and> ?Q (snd (createArtifactsDirectory x t))"
      using create_step_fst create_step_exists create_step_metadata by auto
    have "?Q (snd (forEach createArtifactsDirectory (map fst es) s))"
      using forEach_preserves [of "set (map fst es)" ?Q createArtifactsDirectory "map fst es" s, OF step _ q]
      by blast
    then show ?thesis
      by (simp add: Some Dir createArtifactsDirectories_def existsSync_def chatHistoryDir_def
          readdirSync_def)
  qed
qed

lemma init_step_metadata_frame:
  "d \<noteq> f \<Longrightarrow>
   lookup (snd (initializeDefaultProjectType P now f s)) [d, ''metadata.json'']
   = lookup s [d, ''metadata.json'']"
  using init_step_frame [of d f P now s]
  by (subst lookup_Cons, subst (2) lookup_Cons) simp

lemma init_step_backfill:
  assumes "lookup s [f, ''metadata.json''] = Some (File data)"
    and "startsWith f ''chat_''"
    and "JSON_parse P data = Inr (JObj kvs)"
    and "\<not> truthy (map_of kvs ''projectType'')"
  shows "lookup (snd (initializeDefaultProjectType P now f s)) [f, ''metadata.json'']
     = Some (File (Json (JObj (setEntry ''lastModified'' (JNum now)
                                 (setEntry ''projectType'' (JStr ''chat'') kvs)))))"
proof -
  obtain es where s: "s = Some (Dir es)"
    using assms(1) by (cases s; cases "the s") auto
  obtain cs where f: "map_of es f = Some (Dir cs)"
    using assms(1) unfolding s by (cases "map_of es f"; cases "the (map_of es f)") auto
  have m: "map_of cs ''metadata.json'' = Some (File data)"
    using assms(1) unfolding s by (simp add: f)
  show ?thesis
    using assms(2-4) f m unfolding s
    by (simp add: initializeDefaultProjectType_def isDirectory_def chatHistoryDir_def Let_def
        backfillProjectType_def andThen_def writeFileSync_two existsSync_def readFileSync_def)
qed

lemma init_step_kept:
  assumes "lookup s [f, ''metadata.json''] = Some (File data)"
    and "JSON_parse P data = Inr (JObj kvs)"
    and "truthy (map_of kvs ''projectType'')"
  shows "snd (initializeDefaultProjectType P now f s) = s"
proof -
  obtain es where s: "s = Some (Dir es)"
    using assms(1) by (cases s; cases "the s") auto
  obtain cs where f: "map_of es f = Some (Dir cs)"
    using assms(1) unfolding s by (cases "map_of es f"; cases "the (map_of es f)") auto
  have m: "map_of cs ''metadata.json'' = Some (File data)"
    using assms(1) unfolding s by (simp add: f)
  show ?thesis
    using assms(2-3) f m unfolding s
    by (simp add: initializeDefaultProjectType_def isDirectory_def chatHistoryDir_def Let_def
        backfillProjectType_def andThen_def existsSync_def readFileSync_def)
qed

lemma init_loop_backfill:
  assumes "\<forall>f \<in> set files. lookup s [f] \<noteq> None"
    and "startsWith d ''chat_''"
    and "JSON_parse P data = Inr (JObj kvs)"
    and "\<not> truthy (map_of kvs ''projectType'')"
  shows "(lookup s [d, ''metadata.json'']
            = Some (File (Json (JObj (setEntry ''lastModified'' (JNum now)
                                        (setEntry ''projectType'' (JStr ''chat'') kvs)))))
          \<or> (lookup s [d, ''metadata.json''] = Some (File data) \<and> d \<in> set files))
     \<Longrightarrow> lookup (snd (forEach (initializeDefaultProjectType P now) files s)) [d, ''metadata.json'']
            = Some (File (Json (JObj (setEntry ''lastModified'' (JNum now)
                                        (setEntry ''projectType'' (JStr ''chat'') kvs)))))"
  using assms(1)
proof (induction files arbitrary: s)
  case Nil
  then show ?case by simp
next
  case (Cons f fs)
  let ?step = "initializeDefaultProjectType P now"
  let ?new = "Json (JObj (setEntry ''lastModified'' (JNum now)
                                        (setEntry ''projectType'' (JStr ''chat'') kvs)))"
  obtain s1 where st: "?step f s = (None, s1)"
    using init_step_fst [of s f P now] Cons.prems by (cases "?step f s") auto
  have s1: "s1 = snd (?step f s)" using st by simp
  have ex: "\<forall>g \<in> set fs. lookup s1 [g] \<noteq> None"
    using Cons.prems init_step_exists [of P now f s] unfolding s1 by auto
  have run: "forEach ?step (f # fs) s = forEach ?step fs s1"
    using st by simp
  have newpt: "JSON_parse P ?new = Inr (JObj (setEntry ''lastModified'' (JNum now)
                                        (setEntry ''projectType'' (JStr ''chat'') kvs)))"
    "truthy (map_of (setEntry ''lastModified'' (JNum now)
                                        (setEntry ''projectType'' (JStr ''chat'') kvs)) ''projectType'')"
    by (simp_all add: JSON_parse_def)
  have "lookup s1 [d, ''metadata.json''] = Some (File ?new)
        \<or> (lookup s1 [d, ''metadata.json''] = Some (File data) \<and> d \<in> set fs)"
  proof (cases "d = f")
    case True
    from Cons.prems(1) show ?thesis
    proof
      assume a: "lookup s [d, ''metadata.json''] = Some (File ?new)"
      have "s1 = s"
        unfolding s1 using init_step_kept [OF _ newpt] a True by blast
      with a show ?thesis by simp
    next
      assume "lookup s [d, ''metadata.json''] = Some (File data) \<and> d \<in> set (f # fs)"
      then show ?thesis
        unfolding s1 using init_step_backfill [OF _ _ assms(3,4), of s f now] assms(2) True by simp
    qed
  next
    case False
    then show ?thesis
      unfolding s1 using Cons.prems(1) init_step_metadata_frame [of d f P now s] by auto
  qed
  from Cons.IH [OF this ex] show ?case using run by simp
qed

lemma initChatHistory_backfill_value:
  assumes "lookup s [d, ''metadata.json''] = Some (File data)"
    and "startsWith d ''chat_''"
    and "JSON_parse P data = Inr (JObj kvs)"
    and "\<not> truthy (map_of kvs ''projectType'')"
  shows "lookup (snd (initChatHistory P now s)) [d, ''metadata.json'']
     = Some (File (Json (JObj (setEntry ''lastModified'' (JNum now)
                                 (setEntry ''projectType'' (JStr ''chat'') kvs)))))"
proof -
  let ?t = "createArtifactsDirectories s"
  have ex: "existsSync s chatHistoryDir"
    using assms(1) by (cases s) (auto simp: existsSync_def chatHistoryDir_def)
  have t: "lookup ?t [d, ''metadata.json''] = Some (File data)"
    using assms(1) by (simp add: createArtifactsDirectories_metadata)
  then obtain es where es: "?t = Some (Dir es)"
    by (cases ?t; cases "the ?t") auto
  have d: "d \<in> set (map fst es)"
  proof (rule ccontr)
    assume "d \<notin> set (map fst es)"
    then have "map_of es d = None" by (simp add: map_of_eq_None_iff)
    with t show False by (simp add: es)
  qed
  have all: "\<forall>f \<in> set (map fst es). lookup ?t [f] \<noteq> None"
    by (auto simp: es map_of_eq_None_iff)
  have "lookup (initializeDefaultProjectTypes P now ?t) [d, ''metadata.json'']
     = Some (File (Json (JObj (setEntry ''lastModified'' (JNum now)
                                 (setEntry ''projectType'' (JStr ''chat'') kvs)))))"
    using init_loop_backfill [OF all assms(2,3,4), where now = now] t d
    by (simp add: initializeDefaultProjectTypes_def es existsSync_def chatHistoryDir_def
        readdirSync_def)
  then show ?thesis
    using ex by (simp add: initChatHistory_def loadChatHistory_snd)
qed

text \<open>A conversation directory without a metadata record is not given one.\<close>

lemma init_step_metadata_none:
  assumes "lookup s [d, ''metadata.json''] = None"
  shows "lookup (snd (initializeDefaultProjectType P now f s)) [d, ''metadata.json''] = None"
proof (cases "d = f")
  case True
  then show ?thesis
    using assms
    by (auto simp: initializeDefaultProjectType_def isDirectory_def chatHistoryDir_def Let_def
        existsSync_def split: option.splits node.splits)
next
  case False
  then show ?thesis
    using assms init_step_metadata_frame [of d f P now s] by simp
qed

lemma initChatHistory_metadata_none:
  assumes "lookup s [d, ''metadata.json''] = None"
  shows "lookup (snd (initChatHistory P now s)) [d, ''metadata.json''] = None"
proof -
  let ?t = "createArtifactsDirectories (if s = None then Some (Dir []) else s)"
  have t: "lookup ?t [d, ''metadata.json''] = None"
    using assms by (simp add: createArtifactsDirectories_metadata)
  have r: "snd (initChatHistory P now s) = initializeDefaultProjectTypes P now ?t"
    by (cases s)
       (simp_all add: initChatHistory_def loadChatHistory_snd mkdirSync_def chatHistoryDir_def
          existsSync_def)
  show ?thesis
  proof (cases ?t)
    case None
    then show ?thesis unfolding r
      by (simp add: initializeDefaultProjectTypes_def existsSync_def chatHistoryDir_def)
  next
    case (Some n)
    show ?thesis
    proof (cases n)
      case (File x)
      then show ?thesis unfolding r Some
        by (simp add: initializeDefaultProjectTypes_def existsSync_def chatHistoryDir_def
            readdirSync_def)
    next
      case (Dir es)
      let ?Q = "\<lambda>u. (\<forall>f \<in> set (map fst es). lookup u [f] \<noteq> None)
                  \<and> lookup u [d, ''metadata.json''] = None"
      have q: "?Q ?t" using t by (auto simp: Some Dir map_of_eq_None_iff)
      have step: "\<And>x u. x \<in> set (map fst es) \<Longrightarrow> ?Q u \<Longrightarrow>
          fst (initializeDefaultProjectType P now x u) = None
          \<and> ?Q (snd (initializeDefaultProjectType P now x u))"
        using init_step_fst init_step_exists init_step_metadata_none by auto
      have "?Q (snd (forEach (initializeDefaultProjectType P now) (map fst es) ?t))"
        using forEach_preserves [of "set (map fst es)" ?Q "initializeDefaultProjectType P now"
            "map fst es" ?t, OF step _ q]
        by blast
      then show ?thesis
        unfolding r
        by (simp add: Some Dir initializeDefaultProjectTypes_def existsSync_def chatHistoryDir_def
            readdirSync_def)
    qed
  qed
qed

text \<open>
  A metadata record that does not parse to an object keeps its value: it is left as it
  is, but for a record that parses to an array, which is written again as that array.
\<close>

lemma init_step_nonobject:
  assumes "lookup s [d, ''metadata.json''] = Some (File data)"
    and "\<forall>kvs. JSON_parse P data \<noteq> Inr (JObj kvs)"
  shows "\<exists>data'. lookup (snd (initializeDefaultProjectType P now f s)) [d, ''metadata.json'']
                   = Some (File data')
            \<and> JSON_parse P data' = JSON_parse P data
            \<and> ((\<forall>xs. JSON_parse P data \<noteq> Inr (JArr xs)) \<longrightarrow> data' = data)"
proof (cases "d = f")
  case False
  then show ?thesis
    using assms(1) init_step_metadata_frame [of d f P now s] by simp
next
  case True
  obtain es where s: "s = Some (Dir es)"
    using assms(1) by (cases s; cases "the s") auto
  obtain cs where f: "map_of es f = Some (Dir cs)"
    using assms(1) unfolding s True
    by (cases "map_of es f"; cases "the (map_of es f)") auto
  have m: "map_of cs ''metadata.json'' = Some (File data)"
    using assms(1) unfolding s True by (simp add: f)
  show ?thesis
  proof (cases "JSON_parse P data")
    case (Inl e)
    then show ?thesis
      using f m assms(1) unfolding s True
      by (simp add: initializeDefaultProjectType_def isDirectory_def chatHistoryDir_def Let_def
          backfillProjectType_def andThen_def existsSync_def readFileSync_def)
  next
    case (Inr v)
    then show ?thesis
      using f m assms unfolding s True
      by (cases v)
         (simp_all add: initializeDefaultProjectType_def isDirectory_def chatHistoryDir_def
            Let_def backfillProjectType_def andThen_def existsSync_def readFileSync_def
            writeFileSync_two JSON_parse_def)
  qed
qed

lemma initChatHistory_nonobject:
  assumes "lookup s [d, ''metadata.json''] = Some (File data)"
    and "\<forall>kvs. JSON_parse P data \<noteq> Inr (JObj kvs)"
  shows "\<exists>data'. lookup (snd (initChatHistory P now s)) [d, ''metadata.json''] = Some (File data')
            \<and> JSON_parse P data' = JSON_parse P data
            \<and> ((\<forall>xs. JSON_parse P data \<noteq> Inr (JArr xs)) \<longrightarrow> data' = data)"
proof -
  let ?t = "createArtifactsDirectories s"
  let ?R = "\<lambda>u. \<exists>data'. lookup u [d, ''metadata.json''] = Some (File data')
                 \<and> JSON_parse P data' = JSON_parse P data
                 \<and> ((\<forall>xs. JSON_parse P data \<noteq> Inr (JArr xs)) \<longrightarrow> data' = data)"
  have ex: "existsSync s chatHistoryDir"
    using assms(1) by (cases s) (auto simp: existsSync_def chatHistoryDir_def)
  have t: "lookup ?t [d, ''metadata.json''] = Some (File data)"
    using assms(1) by (simp add: createArtifactsDirectories_metadata)
  then obtain es where es: "?t = Some (Dir es)"
    by (cases ?t; cases "the ?t") auto
  let ?Q = "\<lambda>u. (\<forall>f \<in> set (map fst es). lookup u [f] \<noteq> None) \<and> ?R u"
  have q: "?Q ?t" using t by (auto simp: es map_of_eq_None_iff)
  have step: "fst (initializeDefaultProjectType P now x u) = None
          \<and> ?Q (snd (initializeDefaultProjectType P now x u))"
    if x: "x \<in> set (map fst es)" and u: "?Q u" for x u
  proof -
    obtain data' where d': "lookup u [d, ''metadata.json''] = Some (File data')"
        "JSON_parse P data' = JSON_parse P data"
        "(\<forall>xs. JSON_parse P data \<noteq> Inr (JArr xs)) \<longrightarrow> data' = data"
      using u by blast
    have no: "\<forall>kvs. JSON_parse P data' \<noteq> Inr (JObj kvs)"
      using assms(2) d'(2) by simp
    from init_step_nonobject [OF d'(1) no, of now x]
    obtain data'' where d'': "lookup (snd (initializeDefaultProjectType P now x u))
          [d, ''metadata.json''] = Some (File data'')"
        "JSON_parse P data'' = JSON_parse P data'"
        "(\<forall>xs. JSON_parse P data' \<noteq> Inr (JArr xs)) \<longrightarrow> data'' = data'"
      by blast
    have all: "\<forall>f \<in> set (map fst es). lookup u [f] \<noteq> None"
      using u by blast
    have "data'' = data" if "\<forall>xs. JSON_parse P data \<noteq> Inr (JArr xs)"
      using that d''(3) d'(2,3) by simp
    then have "?R (snd (initializeDefaultProjectType P now x u))"
      using d''(1,2) d'(2) by simp
    moreover have "fst (initializeDefaultProjectType P now x u) = None"
      using init_step_fst [of u x P now] x all by blast
    moreover have "\<forall>f \<in> set (map fst es).
        lookup (snd (initializeDefaultProjectType P now x u)) [f] \<noteq> None"
      using init_step_exists [of P now x u] all by simp
    ultimately show ?thesis by blast
  qed
  have "?Q (snd (forEach (initializeDefaultProjectType P now) (map fst es) ?t))"
    using forEach_preserves [of "set (map fst es)" ?Q "initializeDefaultProjectType P now"
        "map fst es" ?t, OF step _ q]
    by blast
  then have "?R (initializeDefaultProjectTypes P now ?t)"
    by (simp add: es initializeDefaultProjectTypes_def existsSync_def chatHistoryDir_def
        readdirSync_def)
  then show ?thesis
    using ex by (simp add: initChatHistory_def loadChatHistory_snd)
qed

text \<open>
  Claim C5, as the code has it.  After \<^verbatim>\<open>initChatHistory\<close> has returned, every
  conversation directory whose metadata record exists and parses to an object has a
  project type in it (a value that is truthy).  A record that parsed to an object
  without a project type before has been rewritten with the project type \<^verbatim>\<open>chat\<close> and
  the current time as its modification time, its other fields as they were.  A
  conversation directory without a metadata record is not given one.  A metadata
  record that does not parse to an object is not given a project type either: the
  record is there afterwards and parses to the same value, or fails to parse as it did
  before, and unless it parses to an array it is the same file.
\<close>

theorem initChatHistory_backfills:
  "(lookup (snd (initChatHistory P now s)) [d] = Some (Dir cs)
      \<and> startsWith d ''chat_''
      \<and> map_of cs ''metadata.json'' = Some (File data)
      \<and> JSON_parse P data = Inr (JObj kvs)
     \<longrightarrow> truthy (map_of kvs ''projectType''))
   \<and> (lookup s [d, ''metadata.json''] = Some (File data0)
      \<and> startsWith d ''chat_''
      \<and> JSON_parse P data0 = Inr (JObj kvs0)
      \<and> \<not> truthy (map_of kvs0 ''projectType'')
     \<longrightarrow> lookup (snd (initChatHistory P now s)) [d, ''metadata.json'']
         = Some (File (Json (JObj (setEntry ''lastModified'' (JNum now)
                                     (setEntry ''projectType'' (JStr ''chat'') kvs0))))))
   \<and> (lookup s [d, ''metadata.json''] = None
     \<longrightarrow> lookup (snd (initChatHistory P now s)) [d, ''metadata.json''] = None)
   \<and> (lookup s [d, ''metadata.json''] = Some (File data1)
      \<and> (\<forall>kvs1. JSON_parse P data1 \<noteq> Inr (JObj kvs1))
     \<longrightarrow> (\<exists>data'. lookup (snd (initChatHistory P now s)) [d, ''metadata.json'']
                     = Some (File data')
              \<and> JSON_parse P data' = JSON_parse P data1
              \<and> ((\<forall>xs. JSON_parse P data1 \<noteq> Inr (JArr xs)) \<longrightarrow> data' = data1)))"
proof -
  have "\<exists>t. snd (initChatHistory P now s) = initializeDefaultProjectTypes P now t"
    by (auto simp: initChatHistory_def loadChatHistory_snd mkdirSync_def chatHistoryDir_def
        existsSync_def split: sum.splits)
  then have a: "lookup (snd (initChatHistory P now s)) [d] = Some (Dir cs)
      \<and> startsWith d ''chat_''
      \<and> map_of cs ''metadata.json'' = Some (File data)
      \<and> JSON_parse P data = Inr (JObj kvs)
     \<longrightarrow> truthy (map_of kvs ''projectType'')"
    using initializeDefaultProjectTypes_good by metis
  have b: "lookup s [d, ''metadata.json''] = Some (File data0)
      \<and> startsWith d ''chat_''
      \<and> JSON_parse P data0 = Inr (JObj kvs0)
      \<and> \<not> truthy (map_of kvs0 ''projectType'')
     \<longrightarrow> lookup (snd (initChatHistory P now s)) [d, ''metadata.json'']
         = Some (File (Json (JObj (setEntry ''lastModified'' (JNum now)
                                     (setEntry ''projectType'' (JStr ''chat'') kvs0)))))"
    using initChatHistory_backfill_value by blast
  have c: "lookup s [d, ''metadata.json''] = None
     \<longrightarrow> lookup (snd (initChatHistory P now s)) [d, ''metadata.json''] = None"
    using initChatHistory_metadata_none by blast
  have e: "lookup s [d, ''metadata.json''] = Some (File data1)
      \<and> (\<forall>kvs1. JSON_parse P data1 \<noteq> Inr (JObj kvs1))
     \<longrightarrow> (\<exists>data'. lookup (snd (initChatHistory P now s)) [d, ''metadata.json'']
                     = Some (File data')
              \<and> JSON_parse P data' = JSON_parse P data1
              \<and> ((\<forall>xs. JSON_parse P data1 \<noteq> Inr (JArr xs)) \<longrightarrow> data' = data1))"
    using initChatHistory_nonobject [of s d data1 P now] by blast
  show ?thesis
    using a b c e by blast
qed

text \<open>
  The theorem at a storage with three conversations: the metadata record of the first
  has no project type, the one of the second is no JSON text, and the third has no
  metadata record.
\<close>

theorem initChatHistory_backfills_witness:
  "lookup (Some (Dir [(''chat_1'', Dir [(''metadata.json'', File (Json (JObj [(''id'', JNum 1)])))]),
                      (''chat_2'', Dir [(''metadata.json'', File (Raw ''{''))]),
                      (''chat_3'', Dir [(''conversation.json'', File (Json (JObj [])))])]))
     [''chat_1'', ''metadata.json'']
     = Some (File (Json (JObj [(''id'', JNum 1)])))
   \<and> startsWith ''chat_1'' ''chat_''
   \<and> JSON_parse rejecting (Json (JObj [(''id'', JNum 1)])) = Inr (JObj [(''id'', JNum 1)])
   \<and> \<not> truthy (map_of [(''id'', JNum 1)] ''projectType'')
   \<and> lookup (Some (Dir [(''chat_1'', Dir [(''metadata.json'', File (Json (JObj [(''id'', JNum 1)])))]),
                      (''chat_2'', Dir [(''metadata.json'', File (Raw ''{''))]),
                      (''chat_3'', Dir [(''conversation.json'', File (Json (JObj [])))])]))
     [''chat_2'', ''metadata.json'']
     = Some (File (Raw ''{''))
   \<and> JSON_parse rejecting (Raw ''{'') = Inl SyntaxError
   \<and> lookup (Some (Dir [(''chat_1'', Dir [(''metadata.json'', File (Json (JObj [(''id'', JNum 1)])))]),
                      (''chat_2'', Dir [(''metadata.json'', File (Raw ''{''))]),
                      (''chat_3'', Dir [(''conversation.json'', File (Json (JObj [])))])]))
     [''chat_3'', ''metadata.json'']
     = None
   \<and> snd (initChatHistory rejecting 5
       (Some (Dir [(''chat_1'', Dir [(''metadata.json'', File (Json (JObj [(''id'', JNum 1)])))]),
                   (''chat_2'', Dir [(''metadata.json'', File (Raw ''{''))]),
                   (''chat_3'', Dir [(''conversation.json'', File (Json (JObj [])))])])))
     = Some (Dir [(''chat_1'',
                   Dir [(''metadata.json'',
                         File (Json (JObj [(''id'', JNum 1), (''projectType'', JStr ''chat''),
                                           (''lastModified'', JNum 5)]))),
                        (''artifacts'', Dir [])]),
                  (''chat_2'', Dir [(''metadata.json'', File (Raw ''{'')), (''artifacts'', Dir [])]),
                  (''chat_3'', Dir [(''conversation.json'', File (Json (JObj []))),
                                    (''artifacts'', Dir [])])])
   \<and> truthy (map_of [(''id'', JNum 1), (''projectType'', JStr ''chat''), (''lastModified'', JNum 5)]
        ''projectType'')"
  using initChatHistory_backfills
          [where P = rejecting and now = 5 and d = "''chat_1''"
             and s = "Some (Dir [(''chat_1'', Dir [(''metadata.json'', File (Json (JObj [(''id'', JNum 1)])))]),
                      (''chat_2'', Dir [(''metadata.json'', File (Raw ''{''))]),
                      (''chat_3'', Dir [(''conversation.json'', File (Json (JObj [])))])])"
             and cs = "[(''metadata.json'',
                         File (Json (JObj [(''id'', JNum 1), (''projectType'', JStr ''chat''),
                                           (''lastModified'', JNum 5)]))),
                        (''artifacts'', Dir [])]"
             and data = "Json (JObj [(''id'', JNum 1), (''projectType'', JStr ''chat''),
                                     (''lastModified'', JNum 5)])"
             and kvs = "[(''id'', JNum 1), (''projectType'', JStr ''chat''),
                         (''lastModified'', JNum 5)]"
             and ?data0.0 = "Json (JObj [(''id'', JNum 1)])" and ?kvs0.0 = "[(''id'', JNum 1)]"]
        initChatHistory_backfills
          [where P = rejecting and now = 5 and d = "''chat_2''"
             and s = "Some (Dir [(''chat_1'', Dir [(''metadata.json'', File (Json (JObj [(''id'', JNum 1)])))]),
                      (''chat_2'', Dir [(''metadata.json'', File (Raw ''{''))]),
                      (''chat_3'', Dir [(''conversation.json'', File (Json (JObj [])))])])"
             and ?data1.0 = "Raw ''{''"]
        initChatHistory_backfills
          [where P = rejecting and now = 5 and d = "''chat_3''"
             and s = "Some (Dir [(''chat_1'', Dir [(''metadata.json'', File (Json (JObj [(''id'', JNum 1)])))]),
                      (''chat_2'', Dir [(''metadata.json'', File (Raw ''{''))]),
                      (''chat_3'', Dir [(''conversation.json'', File (Json (JObj [])))])])"]
  by (simp add: init_eval rejecting_def split: sum.splits)

text \<open>
  The claim as it is written fails: the conversation directory has no metadata record,
  and after the initialization it has an artifacts directory and still no metadata
  record.
\<close>

theorem initChatHistory_backfills_counterexample:
  "snd (initChatHistory rejecting 5
      (Some (Dir [(''chat_1'', Dir [(''conversation.json'', File (Json (JObj [(''id'', JNum 1)])))])])))
   = Some (Dir [(''chat_1'', Dir [(''conversation.json'', File (Json (JObj [(''id'', JNum 1)]))),
                                  (''artifacts'', Dir [])])])"
  by (simp add: init_eval split: sum.splits)

subsection \<open>Loading an artifact\<close>

text \<open>
  Claim C6, as the code has it.  Loading an artifact never raises: the method returns a
  value whatever the storage, the name and the encoding are.  It returns \<^verbatim>\<open>null\<close> when
  the artifact file does not exist, and it returns \<^verbatim>\<open>null\<close> as well when the encoding is
  \<^verbatim>\<open>json\<close> and the stored payload cannot be parsed: the parse error is caught and
  logged, not propagated.
\<close>

theorem loadConversationArtifact_never_raises:
  "(\<exists>v. fst (loadConversationArtifact P conversationId artifactName typ s) = Inr v)
   \<and> (lookup s [conversationDir conversationId, ''artifacts'', artifactName] = None
        \<longrightarrow> fst (loadConversationArtifact P conversationId artifactName typ s) = Inr JNull)
   \<and> (lookup s [conversationDir conversationId, ''artifacts'', artifactName] = Some (File d)
        \<and> JSON_parse P d = Inl e
        \<longrightarrow> fst (loadConversationArtifact P conversationId artifactName ''json'' s) = Inr JNull)"
  by (auto simp: loadConversationArtifact_def loadConversationArtifact_try_def Let_def
      chatHistoryDir_def existsSync_def readFileSync_def andThen_def
      split: sum.splits option.splits node.splits)

text \<open>
  The theorem at a storage without the artifact, and at one whose artifact is the text
  of a single opening brace.
\<close>

theorem loadConversationArtifact_never_raises_witness:
  "lookup (Some (Dir [])) [conversationDir 1, ''artifacts'', ''x.json''] = None
   \<and> fst (loadConversationArtifact rejecting 1 ''x.json'' ''json'' (Some (Dir []))) = Inr JNull
   \<and> lookup (Some (Dir [(''chat_1'', Dir [(''artifacts'', Dir [(''x.json'', File (Raw ''{''))])])]))
        [conversationDir 1, ''artifacts'', ''x.json''] = Some (File (Raw ''{''))
   \<and> JSON_parse rejecting (Raw ''{'') = Inl SyntaxError
   \<and> fst (loadConversationArtifact rejecting 1 ''x.json'' ''json''
        (Some (Dir [(''chat_1'', Dir [(''artifacts'', Dir [(''x.json'', File (Raw ''{''))])])])))
      = Inr JNull"
  using loadConversationArtifact_never_raises
          [of rejecting 1 "''x.json''" "''json''" "Some (Dir [])"]
        loadConversationArtifact_never_raises
          [of rejecting 1 "''x.json''" "''json''"
              "Some (Dir [(''chat_1'', Dir [(''artifacts'', Dir [(''x.json'', File (Raw ''{''))])])])"
              "Raw ''{''" SyntaxError]
  by (simp add: conversationDir_Suc_0 JSON_parse_def rejecting_def)

text \<open>
  The claim as it is written fails: an artifact whose text is no JSON text is loaded
  with the encoding \<^verbatim>\<open>json\<close>, and the caller gets \<^verbatim>\<open>null\<close>, a normal return, where the
  claim has a parse error.
\<close>

theorem loadConversationArtifact_parse_error_counterexample:
  "fst (loadConversationArtifact rejecting 1 ''x.json'' ''json''
      (Some (Dir [(''chat_1'', Dir [(''artifacts'', Dir [(''x.json'', File (Raw ''{''))])])])))
   = Inr JNull"
  by (simp add: loadConversationArtifact_def loadConversationArtifact_try_def Let_def
      chatHistoryDir_def existsSync_def readFileSync_def andThen_def conversationDir_Suc_0
      JSON_parse_def rejecting_def)

subsection \<open>Saving an artifact with an encoding that is not recognised\<close>

text \<open>
  Claim C7, as the code has it.  Saving an artifact with an encoding other than
  \<^verbatim>\<open>json\<close>, \<^verbatim>\<open>text\<close> and \<^verbatim>\<open>binary\<close> writes no file: every file of the storage afterwards
  was there before, with the same data.  The error is caught and logged inside the
  method, which returns normally; nothing is surfaced to the caller.
\<close>

theorem saveConversationArtifact_unsupported:
  assumes "typ \<noteq> ''json''" "typ \<noteq> ''text''" "typ \<noteq> ''binary''"
  shows "fst (saveConversationArtifact conversationId artifactName data typ s) = Inr ()
     \<and> (\<forall>q d. lookup (snd (saveConversationArtifact conversationId artifactName data typ s)) q
                 = Some (File d)
            \<longrightarrow> lookup s q = Some (File d))"
  using assms
  by (auto simp: saveConversationArtifact_def saveConversationArtifact_try_def Let_def
      split: sum.splits if_splits prod.splits option.splits dest: mkdirSync_files)

text \<open>The theorem at the encoding \<^verbatim>\<open>yaml\<close> and an empty storage.\<close>

theorem saveConversationArtifact_unsupported_witness:
  "''yaml'' \<noteq> ''json'' \<and> ''yaml'' \<noteq> ''text'' \<and> ''yaml'' \<noteq> ''binary''
   \<and> fst (saveConversationArtifact 1 ''notes.yaml'' (JStr ''a: 1'') ''yaml'' None) = Inr ()
   \<and> lookup (snd (saveConversationArtifact 1 ''notes.yaml'' (JStr ''a: 1'') ''yaml'' None))
        [''chat_1'', ''artifacts'', ''notes.yaml''] \<noteq> Some (File (Raw ''a: 1''))"
  using saveConversationArtifact_unsupported [of "''yaml''" 1 "''notes.yaml''" "JStr ''a: 1''" None]
  by auto

text \<open>
  The claim as it is written fails: the call with the encoding \<^verbatim>\<open>yaml\<close> returns
  normally, with no error for the caller, and it has created the directory of the
  conversation and its artifacts directory.
\<close>

theorem saveConversationArtifact_unsupported_counterexample:
  "saveConversationArtifact 1 ''notes.yaml'' (JStr ''a: 1'') ''yaml'' None
   = (Inr (), Some (Dir [(''chat_1'', Dir [(''artifacts'', Dir [])])]))"
  by (simp add: saveConversationArtifact_def saveConversationArtifact_try_def Let_def
      chatHistoryDir_def existsSync_def mkdirSync_def conversationDir_Suc_0)

subsection \<open>The read operations\<close>

text \<open>
  Claim C10.  Loading the conversations, loading an artifact and listing the artifacts
  of a conversation leave the storage as it was, whatever the storage is (a missing
  directory, a file where a directory should be, a file that cannot be parsed) and
  whatever they return.
\<close>

theorem read_operations_frame:
  "snd (loadChatHistory P s) = s
   \<and> snd (loadConversationArtifact P conversationId artifactName typ s) = s
   \<and> snd (getConversationArtifacts conversationId s) = s"
  by (simp add: loadChatHistory_def loadConversationArtifact_def getConversationArtifacts_def
      Let_def split: sum.splits)

subsection \<open>The settling of a request\<close>

text \<open>
  The promise of \<^verbatim>\<open>sendMessageToAPI\<close> is rejected with the error of the transport when
  the request fails, and with the error \<^verbatim>\<open>Invalid JSON response from server\<close> when the
  body of the response cannot be parsed.  When the body parses to an object, the promise
  is resolved with the \<^verbatim>\<open>response\<close> property of the object, which is \<^verbatim>\<open>undefined\<close> when
  the object has none.
\<close>

lemma sendMessageToAPI_settles:
  "snd (sendMessageToAPI P m buffer model key (Failed e)) = Inl e
   \<and> (JSON_parse P b = Inl e'
        \<longrightarrow> snd (sendMessageToAPI P m buffer model key (Replied b))
            = Inl (Error ''Invalid JSON response from server''))
   \<and> (JSON_parse P b = Inr (JObj kvs)
        \<longrightarrow> snd (sendMessageToAPI P m buffer model key (Replied b)) = Inr (map_of kvs ''response''))"
  by (simp add: sendMessageToAPI_def settle_def andThen_def Let_def)

text \<open>
  Claim C8 fails on the code.  A refused connection rejects the promise with the error
  of the transport, and a body that is no JSON text rejects it with the error
  \<^verbatim>\<open>Invalid JSON response from server\<close>, as the claim says.  But when the server
  answers with an envelope that carries an \<^verbatim>\<open>error\<close> field and no \<^verbatim>\<open>response\<close> field, the
  promise is resolved, with \<^verbatim>\<open>undefined\<close>: there is no error for the backend's error.
\<close>

theorem sendMessageToAPI_error_envelope:
  "snd (sendMessageToAPI rejecting ''hi'' [] ''mistral:latest'' JNull (Failed ECONNREFUSED))
     = Inl ECONNREFUSED
   \<and> snd (sendMessageToAPI rejecting ''hi'' [] ''mistral:latest'' JNull
            (Replied (Raw ''Internal Server Error'')))
     = Inl (Error ''Invalid JSON response from server'')
   \<and> snd (sendMessageToAPI rejecting ''hi'' [] ''mistral:latest'' JNull
            (Replied (Json (JObj [(''response'', JStr ''hello'')]))))
     = Inr (Some (JStr ''hello''))
   \<and> snd (sendMessageToAPI rejecting ''hi'' [] ''mistral:latest'' JNull
            (Replied (Json (JObj [(''error'', JStr ''model not found'')]))))
     = Inr None"
  by (simp add: sendMessageToAPI_def settle_def andThen_def JSON_parse_def Let_def rejecting_def)

subsection \<open>The two copies of the class\<close>

text \<open>
  Claim C9 fails on the code.  The two copies of the class differ in one constant, the
  model name under which \<^verbatim>\<open>sendMessageToAPI\<close> attaches the API key: for the model
  \<^verbatim>\<open>claude-sonnet-4-5\<close> and a key, the class of main.js sends the header
  \<^verbatim>\<open>claude-api-key\<close> and the class of part_004 sends the same request without it.
\<close>

theorem sendMessageToAPI_copies_differ:
  "map fst (headers (fst (sendMessageToAPI P ''hi'' [] ''claude-sonnet-4-5'' (JStr ''sk-ant-1'') x)))
     = [''Content-Type'', ''Content-Length'', ''claude-api-key'']
   \<and> map fst (headers (fst (sendMessageToAPI_part_004 P ''hi'' [] ''claude-sonnet-4-5''
                               (JStr ''sk-ant-1'') x)))
     = [''Content-Type'', ''Content-Length'']
   \<and> body (fst (sendMessageToAPI_part_004 P ''hi'' [] ''claude-sonnet-4-5'' (JStr ''sk-ant-1'') x))
     = body (fst (sendMessageToAPI P ''hi'' [] ''claude-sonnet-4-5'' (JStr ''sk-ant-1'') x))
   \<and> snd (sendMessageToAPI_part_004 P ''hi'' [] ''claude-sonnet-4-5'' (JStr ''sk-ant-1'') x)
     = snd (sendMessageToAPI P ''hi'' [] ''claude-sonnet-4-5'' (JStr ''sk-ant-1'') x)"
  by (simp add: sendMessageToAPI_def sendMessageToAPI_part_004_def requestHeaders_def
      requestHeaders_part_004_def Let_def)

end
